theory Spec2Isabelle
  imports Complex_Main "HOL-Library.AList"
begin

section \<open>Python values, errors and the completion service\<close>

text \<open>
  The agents of \<^verbatim>\<open>backend/app/agents\<close> exchange untyped Python data with their callers
  (records of type \<^verbatim>\<open>Dict[str, Any]\<close>) and with the completion service (the value the
  \<^verbatim>\<open>JsonOutputParser\<close> at the end of every chain returns). Both are values of \<open>pyval\<close>.
  A float is modelled by the real number it denotes; NaN and the infinities are left out.
  A dictionary is an association list read with \<open>map_of\<close>.
\<close>

datatype pyval =
    PNone
  | PBool bool
  | PInt int
  | PFloat real
  | PStr string
  | PList "pyval list"
  | PDict "(string \<times> pyval) list"

type_synonym pydict = "(string \<times> pyval) list"

text \<open>
  Every exception of the source is a value: a failure of the completion service or of the
  parser comes back from the service itself, \<open>ValidationError\<close> is what a pydantic
  constructor raises, \<open>TypeError\<close> is raised by a slice or a \<^verbatim>\<open>str.join\<close> over a value
  that does not support it, \<open>AttributeError\<close> by reading a field of a value that has none.
\<close>

datatype error =
    UpstreamServiceError
  | OutputParserException
  | ValidationError
  | TypeError
  | AttributeError

definition bind_r :: "error + 'a \<Rightarrow> ('a \<Rightarrow> error + 'b) \<Rightarrow> error + 'b" where
  "bind_r m f = (case m of Inl e \<Rightarrow> Inl e | Inr x \<Rightarrow> f x)"

text \<open>\<^verbatim>\<open>d.get(k, default)\<close> and \<^verbatim>\<open>d[k] = v\<close>.\<close>

definition dict_get :: "pydict \<Rightarrow> string \<Rightarrow> pyval \<Rightarrow> pyval" where
  "dict_get d k dflt = (case map_of d k of None \<Rightarrow> dflt | Some v \<Rightarrow> v)"

definition dict_set :: "string \<Rightarrow> pyval \<Rightarrow> pydict \<Rightarrow> pydict" where
  "dict_set k v d = AList.update k v d"

text \<open>
  An optional list argument (\<^verbatim>\<open>List[...] = None\<close>): \<^verbatim>\<open>if xs:\<close> holds when it is
  given and not empty; \<open>items\<close> reads it where the source has already tested it.
\<close>

definition truthy :: "'a list option \<Rightarrow> bool" where
  "truthy xs = (case xs of None \<Rightarrow> False | Some l \<Rightarrow> l \<noteq> [])"

definition items :: "'a list option \<Rightarrow> 'a list" where
  "items xs = (case xs of None \<Rightarrow> [] | Some l \<Rightarrow> l)"

text \<open>\<^verbatim>\<open>text or "placeholder"\<close>: the empty string is false.\<close>

definition or_else :: "string \<Rightarrow> string \<Rightarrow> string" where
  "or_else s dflt = (if s = [] then dflt else s)"

subsection \<open>Text\<close>

definition nl :: string where
  "nl = ''\<newline>''"

definition dquote :: string where
  "dquote = [CHR 0x22]"

fun join :: "string \<Rightarrow> string list \<Rightarrow> string" where
  "join sep [] = []"
| "join sep [x] = x"
| "join sep (x # y # ys) = x @ sep @ join sep (y # ys)"

definition digit :: "nat \<Rightarrow> char" where
  "digit n = ''0123456789'' ! (n mod 10)"

function str_nat :: "nat \<Rightarrow> string" where
  "str_nat n = (if n < 10 then [digit n] else str_nat (n div 10) @ [digit n])"
  by pat_completeness auto
termination
  by (relation "measure id") auto

declare str_nat.simps [simp del]

definition str_int :: "int \<Rightarrow> string" where
  "str_int i = (if i < 0 then ''-'' @ str_nat (nat (- i)) else str_nat (nat i))"

text \<open>
  \<^verbatim>\<open>str(v)\<close>, as an f-string and a prompt template apply it. The text of a float and of a
  container (Python's \<^verbatim>\<open>repr\<close>) is the parameter \<open>S\<close>.
\<close>

definition py_str :: "(pyval \<Rightarrow> string) \<Rightarrow> pyval \<Rightarrow> string" where
  "py_str S v =
     (case v of
        PNone \<Rightarrow> ''None''
      | PBool b \<Rightarrow> (if b then ''True'' else ''False'')
      | PInt i \<Rightarrow> str_int i
      | PStr s \<Rightarrow> s
      | _ \<Rightarrow> S v)"

text \<open>
  \<^verbatim>\<open>f"{v[:n]}"\<close>: a string and a list can be sliced, any other value raises.
\<close>

definition slice_str :: "(pyval \<Rightarrow> string) \<Rightarrow> nat \<Rightarrow> pyval \<Rightarrow> error + string" where
  "slice_str S n v =
     (case v of
        PStr s \<Rightarrow> Inr (take n s)
      | PList xs \<Rightarrow> Inr (py_str S (PList (take n xs)))
      | _ \<Rightarrow> Inl TypeError)"

text \<open>\<^verbatim>\<open>"\n".join(xs)\<close> over a list that should hold strings: any other item raises.\<close>

fun strs_of :: "pyval list \<Rightarrow> error + string list" where
  "strs_of [] = Inr []"
| "strs_of (PStr s # vs) = bind_r (strs_of vs) (\<lambda>ss. Inr (s # ss))"
| "strs_of (_ # vs) = Inl TypeError"

definition join_vals :: "string \<Rightarrow> pyval list \<Rightarrow> error + string" where
  "join_vals sep vs = bind_r (strs_of vs) (\<lambda>ss. Inr (join sep ss))"

text \<open>A list comprehension whose body can raise stops at the first item that does.\<close>

fun map_r :: "('a \<Rightarrow> error + 'b) \<Rightarrow> 'a list \<Rightarrow> error + 'b list" where
  "map_r f [] = Inr []"
| "map_r f (x # xs) = bind_r (f x) (\<lambda>y. bind_r (map_r f xs) (\<lambda>ys. Inr (y # ys)))"

subsection \<open>The completion service\<close>

text \<open>
  A chain \<^verbatim>\<open>prompt | llm | parser\<close> is called with the values of the template's
  variables; the template and the format instructions are fixed per operation, so a
  prompt is the operation together with the texts interpolated into it. The service is
  any function of the prompts it has received so far and of the present one, and returns
  the parsed JSON value or fails. Calling it appends the prompt to the list of those sent.
\<close>

datatype prompt =
    GapPrompt string string string string
  | FAQPrompt string string string
  | QualityPrompt string string string string
  | CoveragePrompt string string
  | SuggestionPrompt string string string

type_synonym service = "prompt list \<Rightarrow> prompt \<Rightarrow> error + pyval"

type_synonym 'a io = "(error + 'a) \<times> prompt list"

definition ainvoke :: "service \<Rightarrow> prompt \<Rightarrow> prompt list \<Rightarrow> pyval io" where
  "ainvoke llm p sent = (llm sent p, sent @ [p])"

definition bind_io :: "'a io \<Rightarrow> ('a \<Rightarrow> prompt list \<Rightarrow> 'b io) \<Rightarrow> 'b io" where
  "bind_io m f = (case m of (Inl e, sent) \<Rightarrow> (Inl e, sent) | (Inr x, sent) \<Rightarrow> f x sent)"

text \<open>
  Every agent method ends with
  \<^verbatim>\<open>if isinstance(result, dict): ...; return Model(**result)\<close> and \<^verbatim>\<open>return result\<close>:
  it returns a validated model, or the parsed value as it is when that is no dictionary.
\<close>

datatype 'a returned = Model 'a | Raw pyval

definition attr :: "'a returned \<Rightarrow> error + 'a" where
  "attr r = (case r of Model m \<Rightarrow> Inr m | Raw v \<Rightarrow> Inl AttributeError)"

section \<open>Schema validation\<close>

text \<open>
  The constructors of the pydantic models, on the values a JSON parser produces, in the
  library's default (lax) mode. A \<^verbatim>\<open>str\<close> field takes a string; a \<^verbatim>\<open>List[T]\<close> field a
  list whose items all validate; a field typed by a model takes a dictionary. Keys the
  model does not declare are ignored. No field declares a bound (\<^verbatim>\<open>ge\<close>, \<^verbatim>\<open>le\<close>) or a
  validator of its own.

  An \<^verbatim>\<open>int\<close> field takes an integer of any size, a boolean, a float without fractional
  part that lies strictly between \<open>- 2^63\<close> and \<open>2^63\<close>, and a string the library reads
  as an integer. A \<^verbatim>\<open>float\<close> field takes a float as it is, a boolean, an integer, which
  becomes the nearest double (a tie going to the even mantissa) unless it is too large
  for one, and a string the library reads as a float. How the library reads a string as
  a number is a parameter of the model.
\<close>

record coercion =
  str_as_int :: "string \<Rightarrow> int option"
  str_as_float :: "string \<Rightarrow> real option"

function bit_length :: "int \<Rightarrow> nat" where
  "bit_length n = (if n \<le> 0 then 0 else Suc (bit_length (n div 2)))"
  by pat_completeness auto
termination
  by (relation "measure nat") auto

declare bit_length.simps [simp del]

definition double_of_int :: "int \<Rightarrow> real option" where
  "double_of_int i =
     (let a = \<bar>i\<bar>
      in if a < 2 ^ 53 then Some (of_int i)
         else
           let sh = bit_length a - 53;
               q = a div 2 ^ sh;
               r = a mod 2 ^ sh;
               half = 2 ^ (sh - 1);
               q' = (if r < half then q else if half < r then q + 1
                     else if even q then q else q + 1);
               m = q' * 2 ^ sh
           in if 2 ^ 1024 \<le> m then None
              else Some (if i < 0 then - of_int m else of_int m))"

fun validate_str :: "pyval \<Rightarrow> error + string" where
  "validate_str (PStr s) = Inr s"
| "validate_str _ = Inl ValidationError"

fun validate_int :: "coercion \<Rightarrow> pyval \<Rightarrow> error + int" where
  "validate_int L (PInt i) = Inr i"
| "validate_int L (PFloat x) =
     (if x = of_int \<lfloor>x\<rfloor> \<and> - (2 ^ 63) < x \<and> x < 2 ^ 63 then Inr \<lfloor>x\<rfloor>
      else Inl ValidationError)"
| "validate_int L (PBool b) = Inr (if b then 1 else 0)"
| "validate_int L (PStr s) =
     (case str_as_int L s of None \<Rightarrow> Inl ValidationError | Some i \<Rightarrow> Inr i)"
| "validate_int L _ = Inl ValidationError"

fun validate_float :: "coercion \<Rightarrow> pyval \<Rightarrow> error + real" where
  "validate_float L (PFloat x) = Inr x"
| "validate_float L (PInt i) =
     (case double_of_int i of None \<Rightarrow> Inl ValidationError | Some x \<Rightarrow> Inr x)"
| "validate_float L (PBool b) = Inr (if b then 1 else 0)"
| "validate_float L (PStr s) =
     (case str_as_float L s of None \<Rightarrow> Inl ValidationError | Some x \<Rightarrow> Inr x)"
| "validate_float L _ = Inl ValidationError"

fun validate_list :: "(pyval \<Rightarrow> error + 'a) \<Rightarrow> pyval \<Rightarrow> error + 'a list" where
  "validate_list f (PList vs) = map_r f vs"
| "validate_list f _ = Inl ValidationError"

text \<open>A field without default is required; a field with one takes it when the key is absent.\<close>

definition required :: "pydict \<Rightarrow> string \<Rightarrow> (pyval \<Rightarrow> error + 'a) \<Rightarrow> error + 'a" where
  "required d k f = (case map_of d k of None \<Rightarrow> Inl ValidationError | Some v \<Rightarrow> f v)"

definition optional :: "pydict \<Rightarrow> string \<Rightarrow> 'a \<Rightarrow> (pyval \<Rightarrow> error + 'a) \<Rightarrow> error + 'a" where
  "optional d k dflt f = (case map_of d k of None \<Rightarrow> Inr dflt | Some v \<Rightarrow> f v)"

section \<open>Gap detector\<close>

record DetectedGap =
  title :: string
  description :: string
  topic :: string
  priority :: string
  evidence :: "string list"
  gap_search_queries :: "string list"
  impact_score :: real
  suggested_content :: string

record GapDetectionResult =
  gaps :: "DetectedGap list"
  analysis_summary :: string
  total_queries_analyzed :: int
  total_tickets_analyzed :: int
  coverage_score :: real

fun validate_DetectedGap :: "coercion \<Rightarrow> pyval \<Rightarrow> error + DetectedGap" where
  "validate_DetectedGap L (PDict d) =
     bind_r (required d ''title'' validate_str) (\<lambda>v1.
     bind_r (required d ''description'' validate_str) (\<lambda>v2.
     bind_r (required d ''topic'' validate_str) (\<lambda>v3.
     bind_r (required d ''priority'' validate_str) (\<lambda>v4.
     bind_r (required d ''evidence'' (validate_list validate_str)) (\<lambda>v5.
     bind_r (required d ''search_queries'' (validate_list validate_str)) (\<lambda>v6.
     bind_r (required d ''impact_score'' (validate_float L)) (\<lambda>v7.
     bind_r (required d ''suggested_content'' validate_str) (\<lambda>v8.
     Inr \<lparr>title = v1, description = v2, topic = v3, priority = v4, evidence = v5,
          gap_search_queries = v6, impact_score = v7, suggested_content = v8\<rparr>))))))))"
| "validate_DetectedGap L _ = Inl ValidationError"

definition validate_GapDetectionResult :: "coercion \<Rightarrow> pydict \<Rightarrow> error + GapDetectionResult" where
  "validate_GapDetectionResult L d =
     bind_r (optional d ''gaps'' [] (validate_list (validate_DetectedGap L))) (\<lambda>v1.
     bind_r (required d ''analysis_summary'' validate_str) (\<lambda>v2.
     bind_r (optional d ''total_queries_analyzed'' 0 (validate_int L)) (\<lambda>v3.
     bind_r (optional d ''total_tickets_analyzed'' 0 (validate_int L)) (\<lambda>v4.
     bind_r (optional d ''coverage_score'' 0 (validate_float L)) (\<lambda>v5.
     Inr \<lparr>gaps = v1, analysis_summary = v2, total_queries_analyzed = v3,
          total_tickets_analyzed = v4, coverage_score = v5\<rparr>)))))"

subsection \<open>Input shaping\<close>

definition fmt_query :: "(pyval \<Rightarrow> string) \<Rightarrow> pydict \<Rightarrow> string" where
  "fmt_query S q =
     ''- '' @ dquote @ py_str S (dict_get q ''query'' (PDict q)) @ dquote @
     '' (count: '' @ py_str S (dict_get q ''count'' (PInt 1)) @ '')''"

definition fmt_ticket :: "(pyval \<Rightarrow> string) \<Rightarrow> nat \<Rightarrow> pydict \<Rightarrow> error + string" where
  "fmt_ticket S n t =
     bind_r (slice_str S n (dict_get t ''description'' (PStr ''''))) (\<lambda>d.
     Inr (''Ticket: '' @ py_str S (dict_get t ''subject'' (PStr ''No subject'')) @ nl @
          ''Description: '' @ d))"

definition fmt_ticket_category :: "(pyval \<Rightarrow> string) \<Rightarrow> nat \<Rightarrow> pydict \<Rightarrow> error + string" where
  "fmt_ticket_category S n t =
     bind_r (slice_str S n (dict_get t ''description'' (PStr ''''))) (\<lambda>d.
     Inr (''Ticket: '' @ py_str S (dict_get t ''subject'' (PStr ''No subject'')) @ nl @
          ''Category: '' @ py_str S (dict_get t ''category'' (PStr ''Unknown'')) @ nl @
          ''Description: '' @ d))"

definition fmt_feedback :: "(pyval \<Rightarrow> string) \<Rightarrow> pydict \<Rightarrow> string" where
  "fmt_feedback S f = ''- '' @ py_str S (dict_get f ''feedback'' (PDict f))"

text \<open>
  \<^verbatim>\<open>"\n".join(existing_content[:n]) if existing_content else placeholder\<close>
\<close>

definition titles_text :: "nat \<Rightarrow> string \<Rightarrow> pyval list option \<Rightarrow> error + string" where
  "titles_text n placeholder existing_content =
     (if truthy existing_content then join_vals nl (take n (items existing_content))
      else Inr placeholder)"

definition detect_prompt ::
  "(pyval \<Rightarrow> string) \<Rightarrow> pydict list option \<Rightarrow> pydict list option \<Rightarrow> pydict list option \<Rightarrow>
   pyval list option \<Rightarrow> error + prompt" where
  "detect_prompt S search_queries support_tickets user_feedback existing_content =
     (let queries_text =
            (if truthy search_queries
             then join nl (map (fmt_query S) (take 50 (items search_queries))) else [])
      in bind_r (if truthy support_tickets
                 then bind_r (map_r (fmt_ticket S 200) (take 30 (items support_tickets)))
                        (\<lambda>ts. Inr (join (nl @ nl) ts))
                 else Inr []) (\<lambda>tickets_text.
         let feedback_text =
               (if truthy user_feedback
                then join nl (map (fmt_feedback S) (take 20 (items user_feedback))) else [])
         in bind_r (titles_text 20 ''No existing content'' existing_content) (\<lambda>existing.
            Inr (GapPrompt (or_else queries_text ''No search data available'')
                           (or_else tickets_text ''No ticket data available'')
                           (or_else feedback_text ''No feedback data available'')
                           existing))))"

definition detect_from_searches_prompt ::
  "(pyval \<Rightarrow> string) \<Rightarrow> pydict list \<Rightarrow> pyval list option \<Rightarrow> error + prompt" where
  "detect_from_searches_prompt S zero_result_queries existing_content =
     (let queries_text = join nl (map (fmt_query S) (take 50 zero_result_queries))
      in bind_r (titles_text 20 ''No existing content provided'' existing_content) (\<lambda>existing.
         Inr (GapPrompt (or_else queries_text ''No search data available'')
                        ''No ticket data provided''
                        ''No feedback data provided''
                        existing)))"

definition detect_from_tickets_prompt ::
  "(pyval \<Rightarrow> string) \<Rightarrow> pydict list \<Rightarrow> pyval list option \<Rightarrow> error + prompt" where
  "detect_from_tickets_prompt S support_tickets existing_content =
     bind_r (map_r (fmt_ticket_category S 300) (take 30 support_tickets)) (\<lambda>ts.
     let tickets_text = join (nl @ nl) ts
     in bind_r (titles_text 20 ''No existing content provided'' existing_content) (\<lambda>existing.
        Inr (GapPrompt ''No search data provided''
                       (or_else tickets_text ''No ticket data available'')
                       ''No feedback data provided''
                       existing)))"

subsection \<open>The three entry points\<close>

text \<open>
  Each builds its prompt, calls the service once and, when the parsed value is a
  dictionary, overwrites count keys in it before the model is constructed.
\<close>

definition call ::
  "service \<Rightarrow> error + prompt \<Rightarrow> (pyval \<Rightarrow> error + 'a returned) \<Rightarrow> prompt list \<Rightarrow> 'a returned io" where
  "call llm p finish sent =
     (case p of
        Inl e \<Rightarrow> (Inl e, sent)
      | Inr q \<Rightarrow> bind_io (ainvoke llm q sent) (\<lambda>result sent'. (finish result, sent')))"

definition model_of :: "(pydict \<Rightarrow> error + 'a) \<Rightarrow> pydict \<Rightarrow> error + 'a returned" where
  "model_of validate d = bind_r (validate d) (\<lambda>m. Inr (Model m))"

definition detect_from_searches ::
  "(pyval \<Rightarrow> string) \<Rightarrow> coercion \<Rightarrow> service \<Rightarrow> pydict list \<Rightarrow> pyval list option \<Rightarrow> prompt list \<Rightarrow>
   GapDetectionResult returned io" where
  "detect_from_searches S L llm zero_result_queries existing_content =
     call llm (detect_from_searches_prompt S zero_result_queries existing_content)
       (\<lambda>result. case result of
          PDict d \<Rightarrow>
            model_of (validate_GapDetectionResult L)
              (dict_set ''total_queries_analyzed'' (PInt (int (length zero_result_queries))) d)
        | _ \<Rightarrow> Inr (Raw result))"

definition detect_from_tickets ::
  "(pyval \<Rightarrow> string) \<Rightarrow> coercion \<Rightarrow> service \<Rightarrow> pydict list \<Rightarrow> pyval list option \<Rightarrow> prompt list \<Rightarrow>
   GapDetectionResult returned io" where
  "detect_from_tickets S L llm support_tickets existing_content =
     call llm (detect_from_tickets_prompt S support_tickets existing_content)
       (\<lambda>result. case result of
          PDict d \<Rightarrow>
            model_of (validate_GapDetectionResult L)
              (dict_set ''total_tickets_analyzed'' (PInt (int (length support_tickets))) d)
        | _ \<Rightarrow> Inr (Raw result))"

definition detect ::
  "(pyval \<Rightarrow> string) \<Rightarrow> coercion \<Rightarrow> service \<Rightarrow> pydict list option \<Rightarrow> pydict list option \<Rightarrow>
   pydict list option \<Rightarrow> pyval list option \<Rightarrow> prompt list \<Rightarrow> GapDetectionResult returned io" where
  "detect S L llm search_queries support_tickets user_feedback existing_content =
     call llm (detect_prompt S search_queries support_tickets user_feedback existing_content)
       (\<lambda>result. case result of
          PDict d \<Rightarrow>
            model_of (validate_GapDetectionResult L)
              (dict_set ''total_tickets_analyzed''
                 (PInt (if truthy support_tickets then int (length (items support_tickets)) else 0))
                 (dict_set ''total_queries_analyzed''
                    (PInt (if truthy search_queries then int (length (items search_queries)) else 0))
                    d))
        | _ \<Rightarrow> Inr (Raw result))"

section \<open>FAQ generator\<close>

record GeneratedFAQ =
  question :: string
  answer :: string
  category :: string
  confidence_score :: real
  source_summary :: string
  related_questions :: "string list"
  tags :: "string list"

record FAQGenerationResult =
  faqs :: "GeneratedFAQ list"
  total_sources_analyzed :: int
  categories_covered :: "string list"
  generation_summary :: string

fun validate_GeneratedFAQ :: "coercion \<Rightarrow> pyval \<Rightarrow> error + GeneratedFAQ" where
  "validate_GeneratedFAQ L (PDict d) =
     bind_r (required d ''question'' validate_str) (\<lambda>v1.
     bind_r (required d ''answer'' validate_str) (\<lambda>v2.
     bind_r (required d ''category'' validate_str) (\<lambda>v3.
     bind_r (required d ''confidence_score'' (validate_float L)) (\<lambda>v4.
     bind_r (required d ''source_summary'' validate_str) (\<lambda>v5.
     bind_r (required d ''related_questions'' (validate_list validate_str)) (\<lambda>v6.
     bind_r (required d ''tags'' (validate_list validate_str)) (\<lambda>v7.
     Inr \<lparr>question = v1, answer = v2, category = v3, confidence_score = v4,
          source_summary = v5, related_questions = v6, tags = v7\<rparr>)))))))"
| "validate_GeneratedFAQ L _ = Inl ValidationError"

definition validate_FAQGenerationResult :: "coercion \<Rightarrow> pydict \<Rightarrow> error + FAQGenerationResult" where
  "validate_FAQGenerationResult L d =
     bind_r (optional d ''faqs'' [] (validate_list (validate_GeneratedFAQ L))) (\<lambda>v1.
     bind_r (optional d ''total_sources_analyzed'' 0 (validate_int L)) (\<lambda>v2.
     bind_r (optional d ''categories_covered'' [] (validate_list validate_str)) (\<lambda>v3.
     bind_r (optional d ''generation_summary'' [] validate_str) (\<lambda>v4.
     Inr \<lparr>faqs = v1, total_sources_analyzed = v2, categories_covered = v3,
          generation_summary = v4\<rparr>))))"

definition fmt_faq_ticket :: "(pyval \<Rightarrow> string) \<Rightarrow> nat \<Rightarrow> pydict \<Rightarrow> error + string" where
  "fmt_faq_ticket S n t =
     bind_r (slice_str S n (dict_get t ''description'' (PStr ''''))) (\<lambda>d.
     bind_r (slice_str S n (dict_get t ''resolution'' (PStr ''Not provided''))) (\<lambda>r.
     Inr (''Subject: '' @ py_str S (dict_get t ''subject'' (PStr ''No subject'')) @ nl @
          ''Question: '' @ d @ nl @
          ''Resolution: '' @ r)))"

definition fmt_doc :: "(pyval \<Rightarrow> string) \<Rightarrow> nat \<Rightarrow> pydict \<Rightarrow> error + string" where
  "fmt_doc S n d =
     bind_r (slice_str S n (dict_get d ''content'' (PStr ''''))) (\<lambda>c.
     Inr (''Title: '' @ py_str S (dict_get d ''title'' (PStr ''Untitled'')) @ nl @
          ''Content: '' @ c))"

definition generate_prompt ::
  "(pyval \<Rightarrow> string) \<Rightarrow> pydict list option \<Rightarrow> pydict list option \<Rightarrow> pydict list option \<Rightarrow>
   error + prompt" where
  "generate_prompt S tickets queries documentation =
     bind_r (if truthy tickets
             then bind_r (map_r (fmt_faq_ticket S 250) (take 30 (items tickets)))
                    (\<lambda>ts. Inr (join (nl @ nl) ts))
             else Inr []) (\<lambda>tickets_text.
     let queries_text =
           (if truthy queries
            then join nl (map (fmt_query S) (take 40 (items queries))) else [])
     in bind_r (if truthy documentation
                then bind_r (map_r (fmt_doc S 400) (take 10 (items documentation)))
                       (\<lambda>ds. Inr (join (nl @ nl) ds))
                else Inr []) (\<lambda>docs_text.
        Inr (FAQPrompt (or_else tickets_text ''No ticket data available'')
                       (or_else queries_text ''No query data available'')
                       (or_else docs_text ''No existing documentation''))))"

definition generate ::
  "(pyval \<Rightarrow> string) \<Rightarrow> coercion \<Rightarrow> service \<Rightarrow> pydict list option \<Rightarrow> pydict list option \<Rightarrow>
   pydict list option \<Rightarrow> prompt list \<Rightarrow> FAQGenerationResult returned io" where
  "generate S L llm tickets queries documentation =
     call llm (generate_prompt S tickets queries documentation)
       (\<lambda>result. case result of
          PDict d \<Rightarrow>
            model_of (validate_FAQGenerationResult L)
              (dict_set ''total_sources_analyzed''
                 (PInt ((if truthy tickets then int (length (items tickets)) else 0) +
                        (if truthy queries then int (length (items queries)) else 0)))
                 d)
        | _ \<Rightarrow> Inr (Raw result))"

section \<open>Content analyzer\<close>

record ContentQuality =
  content_id :: string
  title :: string
  completeness_score :: real
  clarity_score :: real
  accuracy_score :: real
  freshness_score :: real
  overall_score :: real
  issues :: "string list"
  improvements :: "string list"

definition validate_ContentQuality :: "coercion \<Rightarrow> pydict \<Rightarrow> error + ContentQuality" where
  "validate_ContentQuality L d =
     bind_r (required d ''content_id'' validate_str) (\<lambda>v1.
     bind_r (required d ''title'' validate_str) (\<lambda>v2.
     bind_r (required d ''completeness_score'' (validate_float L)) (\<lambda>v3.
     bind_r (required d ''clarity_score'' (validate_float L)) (\<lambda>v4.
     bind_r (required d ''accuracy_score'' (validate_float L)) (\<lambda>v5.
     bind_r (required d ''freshness_score'' (validate_float L)) (\<lambda>v6.
     bind_r (required d ''overall_score'' (validate_float L)) (\<lambda>v7.
     bind_r (required d ''issues'' (validate_list validate_str)) (\<lambda>v8.
     bind_r (required d ''improvements'' (validate_list validate_str)) (\<lambda>v9.
     Inr \<lparr>content_id = v1, ContentQuality.title = v2, completeness_score = v3,
          clarity_score = v4, accuracy_score = v5, freshness_score = v6,
          overall_score = v7, issues = v8, improvements = v9\<rparr>)))))))))"

record CoverageAnalysis =
  total_topics :: int
  covered_topics :: int
  coverage_percentage :: real
  well_covered :: "string list"
  partially_covered :: "string list"
  not_covered :: "string list"
  recommendations :: "string list"

definition validate_CoverageAnalysis :: "coercion \<Rightarrow> pydict \<Rightarrow> error + CoverageAnalysis" where
  "validate_CoverageAnalysis L d =
     bind_r (required d ''total_topics'' (validate_int L)) (\<lambda>v1.
     bind_r (required d ''covered_topics'' (validate_int L)) (\<lambda>v2.
     bind_r (required d ''coverage_percentage'' (validate_float L)) (\<lambda>v3.
     bind_r (required d ''well_covered'' (validate_list validate_str)) (\<lambda>v4.
     bind_r (required d ''partially_covered'' (validate_list validate_str)) (\<lambda>v5.
     bind_r (required d ''not_covered'' (validate_list validate_str)) (\<lambda>v6.
     bind_r (required d ''recommendations'' (validate_list validate_str)) (\<lambda>v7.
     Inr \<lparr>total_topics = v1, covered_topics = v2, coverage_percentage = v3,
          well_covered = v4, partially_covered = v5, not_covered = v6,
          recommendations = v7\<rparr>)))))))"

record ContentSuggestionOutput =
  title :: string
  summary :: string
  outline :: "string list"
  priority :: string
  target_audience :: string
  estimated_effort :: string
  seo_keywords :: "string list"
  related_content :: "string list"

definition validate_ContentSuggestionOutput :: "pydict \<Rightarrow> error + ContentSuggestionOutput" where
  "validate_ContentSuggestionOutput d =
     bind_r (required d ''title'' validate_str) (\<lambda>v1.
     bind_r (required d ''summary'' validate_str) (\<lambda>v2.
     bind_r (required d ''outline'' (validate_list validate_str)) (\<lambda>v3.
     bind_r (required d ''priority'' validate_str) (\<lambda>v4.
     bind_r (required d ''target_audience'' validate_str) (\<lambda>v5.
     bind_r (required d ''estimated_effort'' validate_str) (\<lambda>v6.
     bind_r (optional d ''seo_keywords'' [] (validate_list validate_str)) (\<lambda>v7.
     bind_r (optional d ''related_content'' [] (validate_list validate_str)) (\<lambda>v8.
     Inr \<lparr>ContentSuggestionOutput.title = v1, summary = v2, outline = v3,
          ContentSuggestionOutput.priority = v4, target_audience = v5,
          estimated_effort = v6, seo_keywords = v7, related_content = v8\<rparr>))))))))"

definition analyze_quality_prompt :: "(pyval \<Rightarrow> string) \<Rightarrow> pydict \<Rightarrow> error + prompt" where
  "analyze_quality_prompt S content =
     bind_r (slice_str S 3000 (dict_get content ''content'' (PStr ''''))) (\<lambda>c.
     Inr (QualityPrompt (py_str S (dict_get content ''title'' (PStr ''Untitled'')))
                        c
                        (py_str S (dict_get content ''last_updated'' (PStr ''Unknown'')))
                        (py_str S (dict_get content ''category'' (PStr ''Unknown'')))))"

definition analyze_quality ::
  "(pyval \<Rightarrow> string) \<Rightarrow> coercion \<Rightarrow> service \<Rightarrow> pydict \<Rightarrow> prompt list \<Rightarrow> ContentQuality returned io" where
  "analyze_quality S L llm content =
     call llm (analyze_quality_prompt S content)
       (\<lambda>result. case result of
          PDict d \<Rightarrow>
            model_of (validate_ContentQuality L)
              (dict_set ''title'' (dict_get content ''title'' (PStr ''Untitled''))
                 (dict_set ''content_id'' (dict_get content ''id'' (PStr '''')) d))
        | _ \<Rightarrow> Inr (Raw result))"

definition fmt_content :: "(pyval \<Rightarrow> string) \<Rightarrow> nat \<Rightarrow> pydict \<Rightarrow> error + string" where
  "fmt_content S n c =
     bind_r (slice_str S n (dict_get c ''content'' (PStr ''''))) (\<lambda>t.
     Inr (''- '' @ py_str S (dict_get c ''title'' (PStr ''Untitled'')) @ '': '' @ t @ ''...''))"

definition analyze_coverage_prompt ::
  "(pyval \<Rightarrow> string) \<Rightarrow> pydict list \<Rightarrow> string list \<Rightarrow> error + prompt" where
  "analyze_coverage_prompt S content_list expected_topics =
     bind_r (map_r (fmt_content S 200) (take 30 content_list)) (\<lambda>cs.
     let content_summary = join nl cs
     in Inr (CoveragePrompt content_summary
                            (join nl (map (\<lambda>t. ''- '' @ t) expected_topics))))"

definition analyze_coverage ::
  "(pyval \<Rightarrow> string) \<Rightarrow> coercion \<Rightarrow> service \<Rightarrow> pydict list \<Rightarrow> string list \<Rightarrow> prompt list \<Rightarrow>
   CoverageAnalysis returned io" where
  "analyze_coverage S L llm content_list expected_topics =
     call llm (analyze_coverage_prompt S content_list expected_topics)
       (\<lambda>result. case result of
          PDict d \<Rightarrow> model_of (validate_CoverageAnalysis L) d
        | _ \<Rightarrow> Inr (Raw result))"

definition suggest_content_prompt :: "string \<Rightarrow> string \<Rightarrow> pyval list option \<Rightarrow> error + prompt" where
  "suggest_content_prompt gap_title gap_description existing_content =
     bind_r (titles_text 10 ''No related content'' existing_content) (\<lambda>existing.
     Inr (SuggestionPrompt gap_title gap_description existing))"

definition suggest_content ::
  "service \<Rightarrow> string \<Rightarrow> string \<Rightarrow> pyval list option \<Rightarrow> prompt list \<Rightarrow>
   ContentSuggestionOutput returned io" where
  "suggest_content llm gap_title gap_description existing_content =
     call llm (suggest_content_prompt gap_title gap_description existing_content)
       (\<lambda>result. case result of
          PDict d \<Rightarrow> model_of validate_ContentSuggestionOutput d
        | _ \<Rightarrow> Inr (Raw result))"

section \<open>Orchestrator\<close>

text \<open>
  \<^verbatim>\<open>uuid.uuid4()\<close>, \<^verbatim>\<open>datetime.utcnow()\<close> and the two readings of \<^verbatim>\<open>time.time()\<close>
  are inputs of a run. The difference of the two readings is taken exactly.
\<close>

record run_env =
  uuid4 :: string
  utcnow :: real
  time_start :: real
  time_end :: real

record AnalysisReport =
  report_id :: string
  gaps_found :: int
  faqs_generated :: int
  suggestions_created :: int
  coverage_score :: real
  gaps :: "DetectedGap list"
  faqs :: "GeneratedFAQ list"
  suggestions :: "ContentSuggestionOutput returned list"
  summary :: string
  created_at :: real
  duration_seconds :: real

definition new_report :: "run_env \<Rightarrow> AnalysisReport" where
  "new_report env =
     \<lparr>report_id = uuid4 env, gaps_found = 0, faqs_generated = 0, suggestions_created = 0,
      coverage_score = 0, gaps = [], faqs = [], suggestions = [], summary = [],
      created_at = utcnow env, duration_seconds = 0\<rparr>"

text \<open>
  \<^verbatim>\<open>f"{x:.1f}"\<close>: the decimal with one digit after the point that is nearest to \<open>x\<close>, a
  tie going to the even digit.
\<close>

definition round_half_even :: "real \<Rightarrow> int" where
  "round_half_even y =
     (let f = \<lfloor>y\<rfloor>; d = y - of_int f
      in if d < 1 / 2 then f else if 1 / 2 < d then f + 1 else if even f then f else f + 1)"

definition fmt_1f :: "real \<Rightarrow> string" where
  "fmt_1f x =
     (let t = nat (round_half_even (\<bar>x\<bar> * 10))
      in (if x < 0 then ''-'' else []) @ str_nat (t div 10) @ ''.'' @ str_nat (t mod 10))"

definition generate_summary :: "AnalysisReport \<Rightarrow> GapDetectionResult \<Rightarrow> string" where
  "generate_summary report gap_result =
     (let parts =
            [''Analysis completed in '' @ fmt_1f (duration_seconds report) @ '' seconds.'',
             ''Identified '' @ str_int (gaps_found report) @ '' knowledge gaps.''];
          parts = (if faqs_generated report \<noteq> 0
                   then parts @ [''Generated '' @ str_int (faqs_generated report) @ '' FAQs.'']
                   else parts);
          parts = (if suggestions_created report \<noteq> 0
                   then parts @ [''Created '' @ str_int (suggestions_created report) @
                                 '' content suggestions.'']
                   else parts);
          parts = (if coverage_score report \<noteq> 0
                   then parts @ [''Current coverage: '' @ fmt_1f (coverage_score report) @ ''%.'']
                   else parts);
          critical_gaps = filter (\<lambda>g. DetectedGap.priority g = ''critical'') (gaps report);
          parts = (if critical_gaps \<noteq> []
                   then parts @ [''ATTENTION: '' @ str_int (int (length critical_gaps)) @
                                 '' critical gaps require immediate attention.'']
                   else parts)
      in join '' '' parts)"

text \<open>\<^verbatim>\<open>[c.get("title", "") for c in existing_content] if existing_content else []\<close>\<close>

definition content_titles_of :: "pydict list option \<Rightarrow> pyval list" where
  "content_titles_of existing_content =
     (if truthy existing_content
      then map (\<lambda>c. dict_get c ''title'' (PStr '''')) (items existing_content) else [])"

text \<open>Step 1: the detector is called and the report takes its gaps.\<close>

definition step_detect ::
  "(pyval \<Rightarrow> string) \<Rightarrow> coercion \<Rightarrow> service \<Rightarrow> pydict list option \<Rightarrow> pydict list option \<Rightarrow>
   pydict list option \<Rightarrow> pyval list \<Rightarrow> AnalysisReport \<Rightarrow> prompt list \<Rightarrow>
   (GapDetectionResult \<times> AnalysisReport) io" where
  "step_detect S L llm search_queries support_tickets user_feedback content_titles report sent =
     bind_io (detect S L llm search_queries support_tickets user_feedback (Some content_titles) sent)
       (\<lambda>ret sent'.
     bind_io (attr ret, sent') (\<lambda>gap_result sent'.
       (Inr (gap_result,
             report\<lparr>gaps := GapDetectionResult.gaps gap_result,
                    gaps_found := int (length (GapDetectionResult.gaps gap_result))\<rparr>),
        sent')))"

text \<open>Step 2: \<^verbatim>\<open>if expected_topics and existing_content:\<close>\<close>

definition step_coverage ::
  "(pyval \<Rightarrow> string) \<Rightarrow> coercion \<Rightarrow> service \<Rightarrow> pydict list option \<Rightarrow> string list option \<Rightarrow>
   AnalysisReport \<Rightarrow> prompt list \<Rightarrow> AnalysisReport io" where
  "step_coverage S L llm existing_content expected_topics report sent =
     (if truthy expected_topics \<and> truthy existing_content
      then bind_io (analyze_coverage S L llm (items existing_content) (items expected_topics) sent)
             (\<lambda>ret sent'.
           bind_io (attr ret, sent') (\<lambda>coverage sent'.
             (Inr (report\<lparr>coverage_score := coverage_percentage coverage\<rparr>), sent')))
      else (Inr report, sent))"

text \<open>Step 3: \<^verbatim>\<open>if generate_faqs and support_tickets:\<close>\<close>

definition step_faqs ::
  "(pyval \<Rightarrow> string) \<Rightarrow> coercion \<Rightarrow> service \<Rightarrow> bool \<Rightarrow> pydict list option \<Rightarrow> pydict list option \<Rightarrow>
   pydict list option \<Rightarrow> AnalysisReport \<Rightarrow> prompt list \<Rightarrow> AnalysisReport io" where
  "step_faqs S L llm generate_faqs support_tickets search_queries existing_content report sent =
     (if generate_faqs \<and> truthy support_tickets
      then bind_io (generate S L llm support_tickets search_queries existing_content sent)
             (\<lambda>ret sent'.
           bind_io (attr ret, sent') (\<lambda>faq_result sent'.
             (Inr (report\<lparr>faqs := FAQGenerationResult.faqs faq_result,
                          faqs_generated := int (length (FAQGenerationResult.faqs faq_result))\<rparr>),
              sent')))
      else (Inr report, sent))"

text \<open>
  Step 4: the loop \<^verbatim>\<open>for gap in gap_result.gaps[:5]\<close> appends one suggestion per gap;
  the count is set when the loop is over.
\<close>

fun suggest_loop ::
  "service \<Rightarrow> pyval list \<Rightarrow> DetectedGap list \<Rightarrow> AnalysisReport \<Rightarrow> prompt list \<Rightarrow>
   AnalysisReport io" where
  "suggest_loop llm content_titles [] report sent = (Inr report, sent)"
| "suggest_loop llm content_titles (gap # rest) report sent =
     (case suggest_content llm (DetectedGap.title gap) (description gap)
             (Some (take 10 content_titles)) sent of
        (Inl e, sent') \<Rightarrow> (Inl e, sent')
      | (Inr suggestion, sent') \<Rightarrow>
          suggest_loop llm content_titles rest
            (report\<lparr>suggestions := suggestions report @ [suggestion]\<rparr>) sent')"

definition step_suggestions ::
  "service \<Rightarrow> bool \<Rightarrow> GapDetectionResult \<Rightarrow> pyval list \<Rightarrow> AnalysisReport \<Rightarrow> prompt list \<Rightarrow>
   AnalysisReport io" where
  "step_suggestions llm generate_suggestions gap_result content_titles report sent =
     (if generate_suggestions
      then bind_io (suggest_loop llm content_titles (take 5 (GapDetectionResult.gaps gap_result))
                      report sent)
             (\<lambda>report' sent'.
               (Inr (report'\<lparr>suggestions_created := int (length (suggestions report'))\<rparr>), sent'))
      else (Inr report, sent))"

definition run_full_analysis ::
  "(pyval \<Rightarrow> string) \<Rightarrow> coercion \<Rightarrow> service \<Rightarrow> run_env \<Rightarrow> pydict list option \<Rightarrow> pydict list option \<Rightarrow>
   pydict list option \<Rightarrow> pydict list option \<Rightarrow> string list option \<Rightarrow> bool \<Rightarrow> bool \<Rightarrow>
   prompt list \<Rightarrow> AnalysisReport io" where
  "run_full_analysis S L llm env search_queries support_tickets user_feedback existing_content
     expected_topics generate_faqs generate_suggestions sent =
     (let report = new_report env;
          content_titles = content_titles_of existing_content
      in bind_io (step_detect S L llm search_queries support_tickets user_feedback content_titles
                    report sent) (\<lambda>(gap_result, report1) sent1.
         bind_io (step_coverage S L llm existing_content expected_topics report1 sent1)
           (\<lambda>report2 sent2.
         bind_io (step_faqs S L llm generate_faqs support_tickets search_queries existing_content
                    report2 sent2) (\<lambda>report3 sent3.
         bind_io (step_suggestions llm generate_suggestions gap_result content_titles
                    report3 sent3) (\<lambda>report4 sent4.
           let report5 = report4\<lparr>summary := generate_summary report4 gap_result\<rparr>;
               report6 = report5\<lparr>duration_seconds := time_end env - time_start env\<rparr>
           in (Inr report6, sent4))))))"

section \<open>Which operation a prompt belongs to\<close>



fun is_suggestion_prompt :: "prompt \<Rightarrow> bool" where
  "is_suggestion_prompt (SuggestionPrompt a b c) = True"
| "is_suggestion_prompt _ = False"

section \<open>Stub services and example inputs\<close>

text \<open>
  A stub completion service, as a test would install it: whatever the prompt says, it
  answers with counts, identities and scores of its own making. The examples contain no
  float and no container that is turned into text, so the parameter \<open>S\<close> is a constant.
\<close>

definition example_repr :: "pyval \<Rightarrow> string" where
  "example_repr v = ''?''"

text \<open>The examples state no number as a string.\<close>

definition example_coercion :: coercion where
  "example_coercion = \<lparr>str_as_int = (\<lambda>s. None), str_as_float = (\<lambda>s. None)\<rparr>"

definition stub_gap :: pyval where
  "stub_gap =
     PDict [(''title'', PStr ''Export workflow undocumented''),
            (''description'', PStr ''No page explains the export''),
            (''topic'', PStr ''export''),
            (''priority'', PStr ''high''),
            (''evidence'', PList [PStr ''export data'']),
            (''search_queries'', PList [PStr ''export data'']),
            (''impact_score'', PFloat (3 / 2)),
            (''suggested_content'', PStr ''Export guide'')]"

definition stub_faq :: pyval where
  "stub_faq =
     PDict [(''question'', PStr ''How do I log in?''),
            (''answer'', PStr ''Use the reset link''),
            (''category'', PStr ''account''),
            (''confidence_score'', PFloat (3 / 2)),
            (''source_summary'', PStr ''one ticket''),
            (''related_questions'', PList []),
            (''tags'', PList [PStr ''login''])]"

definition stub_llm :: service where
  "stub_llm sent p =
     (case p of
        GapPrompt a b c d \<Rightarrow>
          Inr (PDict [(''gaps'', PList [stub_gap]),
                      (''analysis_summary'', PStr ''one gap''),
                      (''total_queries_analyzed'', PInt 99),
                      (''total_tickets_analyzed'', PInt 7)])
      | FAQPrompt a b c \<Rightarrow>
          Inr (PDict [(''faqs'', PList [stub_faq]),
                      (''total_sources_analyzed'', PInt 99)])
      | QualityPrompt a b c d \<Rightarrow>
          Inr (PDict [(''content_id'', PStr ''made-up-id''),
                      (''title'', PStr ''Made-up title''),
                      (''completeness_score'', PFloat (3 / 2)),
                      (''clarity_score'', PFloat (1 / 2)),
                      (''accuracy_score'', PFloat (1 / 2)),
                      (''freshness_score'', PFloat (1 / 2)),
                      (''overall_score'', PFloat (3 / 2)),
                      (''issues'', PList []),
                      (''improvements'', PList [])])
      | CoveragePrompt a b \<Rightarrow>
          Inr (PDict [(''total_topics'', PInt 2),
                      (''covered_topics'', PInt 1),
                      (''coverage_percentage'', PFloat 10),
                      (''well_covered'', PList [PStr ''billing'']),
                      (''partially_covered'', PList []),
                      (''not_covered'', PList [PStr ''security'']),
                      (''recommendations'', PList [])])
      | SuggestionPrompt a b c \<Rightarrow>
          Inr (PDict [(''title'', PStr ''Exporting your data''),
                      (''summary'', PStr ''How to export''),
                      (''outline'', PList [PStr ''Steps'']),
                      (''priority'', PStr ''high''),
                      (''target_audience'', PStr ''all users''),
                      (''estimated_effort'', PStr ''low'')]))"

text \<open>A stub that reports no topic at all and the percentage it is given.\<close>

definition zero_topics_llm :: "real \<Rightarrow> service" where
  "zero_topics_llm pct sent p =
     Inr (PDict [(''total_topics'', PInt 0),
                 (''covered_topics'', PInt 0),
                 (''coverage_percentage'', PFloat pct),
                 (''well_covered'', PList []),
                 (''partially_covered'', PList []),
                 (''not_covered'', PList []),
                 (''recommendations'', PList [])])"

definition example_queries :: "pydict list" where
  "example_queries =
     [[(''query'', PStr ''reset password'')],
      [(''query'', PStr ''export data'')],
      [(''query'', PStr ''export data'')]]"

definition example_tickets :: "pydict list" where
  "example_tickets =
     [[(''subject'', PStr ''Cannot log in''), (''description'', PStr ''Password rejected'')],
      [(''subject'', PStr ''Export fails''), (''description'', PStr ''Empty file'')]]"

definition example_content :: pydict where
  "example_content =
     [(''id'', PStr ''c-1''), (''title'', PStr ''Billing FAQ''), (''content'', PStr ''How to pay'')]"

definition example_env :: run_env where
  "example_env = \<lparr>uuid4 = ''run-1'', utcnow = 0, time_start = 10, time_end = 25 / 2\<rparr>"


text \<open>
  Two runs against the stub. The first has search queries, one content item and two
  expected topics, with FAQ generation switched off; the second has queries and tickets
  but neither content nor topics, with suggestions switched off.
\<close>

definition example_report_a :: AnalysisReport where
  "example_report_a =
     \<lparr>report_id = ''run-1'', gaps_found = 1, faqs_generated = 0, suggestions_created = 1,
      coverage_score = 10,
      gaps = [\<lparr>DetectedGap.title = ''Export workflow undocumented'',
               description = ''No page explains the export'', topic = ''export'',
               DetectedGap.priority = ''high'', evidence = [''export data''],
               gap_search_queries = [''export data''], impact_score = 3 / 2,
               suggested_content = ''Export guide''\<rparr>],
      faqs = [],
      suggestions = [Model \<lparr>ContentSuggestionOutput.title = ''Exporting your data'',
                            summary = ''How to export'', outline = [''Steps''],
                            ContentSuggestionOutput.priority = ''high'',
                            target_audience = ''all users'', estimated_effort = ''low'',
                            seo_keywords = [], related_content = []\<rparr>],
      summary = ''Analysis completed in 0.0 seconds. Identified 1 knowledge gaps. Created 1 content suggestions. Current coverage: 10.0%.'',
      created_at = 0, duration_seconds = 5 / 2\<rparr>"

definition example_sent_a :: "prompt list" where
  "example_sent_a =
     [GapPrompt (''- '' @ dquote @ ''reset password'' @ dquote @ '' (count: 1)'' @ nl @
                 ''- '' @ dquote @ ''export data'' @ dquote @ '' (count: 1)'' @ nl @
                 ''- '' @ dquote @ ''export data'' @ dquote @ '' (count: 1)'')
                ''No ticket data available'' ''No feedback data available'' ''Billing FAQ'',
      CoveragePrompt ''- Billing FAQ: How to pay...'' (''- billing'' @ nl @ ''- security''),
      SuggestionPrompt ''Export workflow undocumented'' ''No page explains the export''
        ''Billing FAQ'']"

definition example_report_b :: AnalysisReport where
  "example_report_b =
     \<lparr>report_id = ''run-1'', gaps_found = 1, faqs_generated = 1, suggestions_created = 0,
      coverage_score = 0,
      gaps = [\<lparr>DetectedGap.title = ''Export workflow undocumented'',
               description = ''No page explains the export'', topic = ''export'',
               DetectedGap.priority = ''high'', evidence = [''export data''],
               gap_search_queries = [''export data''], impact_score = 3 / 2,
               suggested_content = ''Export guide''\<rparr>],
      faqs = [\<lparr>question = ''How do I log in?'', answer = ''Use the reset link'',
               category = ''account'', confidence_score = 3 / 2,
               source_summary = ''one ticket'', related_questions = [], tags = [''login'']\<rparr>],
      suggestions = [],
      summary = ''Analysis completed in 0.0 seconds. Identified 1 knowledge gaps. Generated 1 FAQs.'',
      created_at = 0, duration_seconds = 5 / 2\<rparr>"

definition example_sent_b :: "prompt list" where
  "example_sent_b =
     [GapPrompt (''- '' @ dquote @ ''reset password'' @ dquote @ '' (count: 1)'' @ nl @
                 ''- '' @ dquote @ ''export data'' @ dquote @ '' (count: 1)'' @ nl @
                 ''- '' @ dquote @ ''export data'' @ dquote @ '' (count: 1)'')
                (''Ticket: Cannot log in'' @ nl @ ''Description: Password rejected'' @ nl @ nl @
                 ''Ticket: Export fails'' @ nl @ ''Description: Empty file'')
                ''No feedback data available'' ''No existing content'',
      FAQPrompt (''Subject: Cannot log in'' @ nl @ ''Question: Password rejected'' @ nl @
                 ''Resolution: Not provided'' @ nl @ nl @
                 ''Subject: Export fails'' @ nl @ ''Question: Empty file'' @ nl @
                 ''Resolution: Not provided'')
                (''- '' @ dquote @ ''reset password'' @ dquote @ '' (count: 1)'' @ nl @
                 ''- '' @ dquote @ ''export data'' @ dquote @ '' (count: 1)'' @ nl @
                 ''- '' @ dquote @ ''export data'' @ dquote @ '' (count: 1)'')
                ''No existing documentation'']"

text \<open>
  A service that answers as \<open>llm\<close> does, with the dictionary it returns rewritten by \<open>f\<close>.
\<close>

definition restate :: "service \<Rightarrow> (pydict \<Rightarrow> pydict) \<Rightarrow> service" where
  "restate llm f sent p =
     (case llm sent p of Inr (PDict d) \<Rightarrow> Inr (PDict (f d)) | r \<Rightarrow> r)"


text \<open>
  A stub that reports seven gaps, the two critical ones and the highest scores last,
  and suggests one page per gap, named after it; and the run of the orchestrator
  against it, with three search queries and nothing else.
\<close>

definition example_gap_json :: "string \<Rightarrow> string \<Rightarrow> real \<Rightarrow> pyval" where
  "example_gap_json t prio score =
     PDict [(''title'', PStr t), (''description'', PStr (''About '' @ t)),
            (''topic'', PStr ''docs''), (''priority'', PStr prio), (''evidence'', PList []),
            (''search_queries'', PList []), (''impact_score'', PFloat score),
            (''suggested_content'', PStr ''A page'')]"

definition example_gap :: "string \<Rightarrow> string \<Rightarrow> real \<Rightarrow> DetectedGap" where
  "example_gap t prio score =
     \<lparr>DetectedGap.title = t, description = ''About '' @ t, topic = ''docs'',
      DetectedGap.priority = prio, evidence = [], gap_search_queries = [],
      impact_score = score, suggested_content = ''A page''\<rparr>"

definition example_suggestion :: "string \<Rightarrow> ContentSuggestionOutput" where
  "example_suggestion t =
     \<lparr>ContentSuggestionOutput.title = ''Write: '' @ t, summary = ''About '' @ t, outline = [],
      ContentSuggestionOutput.priority = ''medium'', target_audience = ''all users'',
      estimated_effort = ''low'', seo_keywords = [], related_content = []\<rparr>"

definition seven_gaps_llm :: service where
  "seven_gaps_llm sent p =
     (case p of
        GapPrompt a b c d \<Rightarrow>
          Inr (PDict [(''gaps'',
                       PList [example_gap_json ''g1'' ''low'' (1 / 10),
                              example_gap_json ''g2'' ''medium'' (2 / 10),
                              example_gap_json ''g3'' ''low'' (3 / 10),
                              example_gap_json ''g4'' ''high'' (4 / 10),
                              example_gap_json ''g5'' ''low'' (5 / 10),
                              example_gap_json ''g6'' ''critical'' (9 / 10),
                              example_gap_json ''g7'' ''critical'' 1]),
                      (''analysis_summary'', PStr ''seven gaps'')])
      | SuggestionPrompt a b c \<Rightarrow>
          Inr (PDict [(''title'', PStr (''Write: '' @ a)), (''summary'', PStr b),
                      (''outline'', PList []), (''priority'', PStr ''medium''),
                      (''target_audience'', PStr ''all users''),
                      (''estimated_effort'', PStr ''low'')])
      | _ \<Rightarrow> Inl UpstreamServiceError)"

definition example_report_c :: AnalysisReport where
  "example_report_c =
     \<lparr>report_id = ''run-1'', gaps_found = 7, faqs_generated = 0, suggestions_created = 5,
      coverage_score = 0,
      gaps = [example_gap ''g1'' ''low'' (1 / 10), example_gap ''g2'' ''medium'' (2 / 10),
              example_gap ''g3'' ''low'' (3 / 10), example_gap ''g4'' ''high'' (4 / 10),
              example_gap ''g5'' ''low'' (5 / 10), example_gap ''g6'' ''critical'' (9 / 10),
              example_gap ''g7'' ''critical'' 1],
      faqs = [],
      suggestions = [Model (example_suggestion ''g1''), Model (example_suggestion ''g2''),
                     Model (example_suggestion ''g3''), Model (example_suggestion ''g4''),
                     Model (example_suggestion ''g5'')],
      summary = ''Analysis completed in 0.0 seconds. Identified 7 knowledge gaps. Created 5 content suggestions. ATTENTION: 2 critical gaps require immediate attention.'',
      created_at = 0, duration_seconds = 5 / 2\<rparr>"

definition example_sent_c :: "prompt list" where
  "example_sent_c =
     [GapPrompt (''- '' @ dquote @ ''reset password'' @ dquote @ '' (count: 1)'' @ nl @
                 ''- '' @ dquote @ ''export data'' @ dquote @ '' (count: 1)'' @ nl @
                 ''- '' @ dquote @ ''export data'' @ dquote @ '' (count: 1)'')
                ''No ticket data available'' ''No feedback data available''
                ''No existing content'',
      SuggestionPrompt ''g1'' ''About g1'' ''No related content'',
      SuggestionPrompt ''g2'' ''About g2'' ''No related content'',
      SuggestionPrompt ''g3'' ''About g3'' ''No related content'',
      SuggestionPrompt ''g4'' ''About g4'' ''No related content'',
      SuggestionPrompt ''g5'' ''About g5'' ''No related content'']"

section \<open>Properties\<close>

subsection \<open>Reading a successful call backwards\<close>

lemma bind_r_eq_Inr: "(bind_r m f = Inr y) = (\<exists>x. m = Inr x \<and> f x = Inr y)"
  by (cases m) (simp_all add: bind_r_def)

lemma bind_io_eq_Inr:
  "(bind_io m f = (Inr y, s)) = (\<exists>x s1. m = (Inr x, s1) \<and> f x s1 = (Inr y, s))"
  by (cases m; cases "fst m") (auto simp: bind_io_def)

lemma call_eq_Inr:
  "(call llm p finish sent = (Inr r, sent')) =
   (\<exists>q result. p = Inr q \<and> llm sent q = Inr result \<and> finish result = Inr r \<and>
      sent' = sent @ [q])"
  by (cases p) (auto simp: call_def bind_io_eq_Inr ainvoke_def)

lemma model_of_eq_Inr:
  "(model_of validate d = Inr r) = (\<exists>m. validate d = Inr m \<and> r = Model m)"
  by (auto simp: model_of_def bind_r_eq_Inr)

lemma finish_eq_Model:
  "((case result of PDict d \<Rightarrow> model_of validate (g d) | _ \<Rightarrow> Inr (Raw result)) = Inr (Model m)) =
   (\<exists>d. result = PDict d \<and> validate (g d) = Inr m)"
  by (cases result) (auto simp: model_of_eq_Inr)

lemma len_if_truthy:
  "(if truthy xs then int (length (items xs)) else 0) = int (length (items xs))"
  by (auto simp: truthy_def items_def split: option.splits)

lemma map_of_dict_set: "map_of (dict_set k v d) = (map_of d)(k \<mapsto> v)"
  by (simp add: dict_set_def update_conv')

lemma required_dict_set:
  "required (dict_set k v d) k' f = (if k' = k then f v else required d k' f)"
  by (simp add: required_def map_of_dict_set)

lemma optional_dict_set:
  "optional (dict_set k v d) k' dflt f = (if k' = k then f v else optional d k' dflt f)"
  by (simp add: optional_def map_of_dict_set)

lemma validate_str_eq_Inr: "(validate_str v = Inr s) = (v = PStr s)"
  by (cases v) simp_all

subsection \<open>Evaluating the examples\<close>

lemmas shaping_defs =
  detect_prompt_def detect_from_searches_prompt_def detect_from_tickets_prompt_def
  generate_prompt_def analyze_quality_prompt_def analyze_coverage_prompt_def
  suggest_content_prompt_def titles_text_def fmt_query_def fmt_ticket_def
  fmt_ticket_category_def fmt_feedback_def fmt_faq_ticket_def fmt_doc_def fmt_content_def
  slice_str_def py_str_def join_vals_def truthy_def items_def or_else_def dict_get_def
  bind_r_def nl_def dquote_def

lemmas calling_defs =
  call_def ainvoke_def bind_io_def model_of_def dict_set_def required_def optional_def
  bind_r_def

lemma analyze_quality_example:
  "analyze_quality example_repr example_coercion stub_llm example_content [] =
     (Inr (Model \<lparr>content_id = ''c-1'', ContentQuality.title = ''Billing FAQ'',
                  completeness_score = 3 / 2, clarity_score = 1 / 2, accuracy_score = 1 / 2,
                  freshness_score = 1 / 2, overall_score = 3 / 2, issues = [],
                  improvements = []\<rparr>),
      [QualityPrompt ''Billing FAQ'' ''How to pay'' ''Unknown'' ''Unknown''])"
  by (simp add: analyze_quality_def validate_ContentQuality_def stub_llm_def
        example_content_def shaping_defs calling_defs)

lemma generate_example:
  "generate example_repr example_coercion stub_llm (Some example_tickets) (Some example_queries) (Some [example_content]) [] =
     (Inr (Model \<lparr>FAQGenerationResult.faqs = [\<lparr>question = ''How do I log in?'', answer = ''Use the reset link'',
                     category = ''account'', confidence_score = 3 / 2, source_summary = ''one ticket'',
                     related_questions = [], tags = [''login'']\<rparr>],
                  total_sources_analyzed = 5, categories_covered = [], generation_summary = []\<rparr>),
      [FAQPrompt (''Subject: Cannot log in'' @ nl @ ''Question: Password rejected'' @ nl @ ''Resolution: Not provided'' @ nl @ nl @
                  ''Subject: Export fails'' @ nl @ ''Question: Empty file'' @ nl @ ''Resolution: Not provided'')
                 (''- '' @ dquote @ ''reset password'' @ dquote @ '' (count: 1)'' @ nl @
                  ''- '' @ dquote @ ''export data'' @ dquote @ '' (count: 1)'' @ nl @
                  ''- '' @ dquote @ ''export data'' @ dquote @ '' (count: 1)'')
                 (''Title: Billing FAQ'' @ nl @ ''Content: How to pay'')])"
  by (simp add: generate_def validate_FAQGenerationResult_def stub_llm_def stub_faq_def
        example_content_def example_tickets_def example_queries_def shaping_defs calling_defs
        str_int_def str_nat.simps digit_def)

lemma detect_example:
  "detect example_repr example_coercion stub_llm (Some example_queries) None None None [] =
     (Inr (Model \<lparr>GapDetectionResult.gaps =
                    [\<lparr>DetectedGap.title = ''Export workflow undocumented'',
                      description = ''No page explains the export'', topic = ''export'',
                      DetectedGap.priority = ''high'', evidence = [''export data''],
                      gap_search_queries = [''export data''], impact_score = 3 / 2,
                      suggested_content = ''Export guide''\<rparr>],
                  analysis_summary = ''one gap'', total_queries_analyzed = 3,
                  total_tickets_analyzed = 0, GapDetectionResult.coverage_score = 0\<rparr>),
      [GapPrompt (''- '' @ dquote @ ''reset password'' @ dquote @ '' (count: 1)'' @ nl @
                  ''- '' @ dquote @ ''export data'' @ dquote @ '' (count: 1)'' @ nl @
                  ''- '' @ dquote @ ''export data'' @ dquote @ '' (count: 1)'')
                 ''No ticket data available'' ''No feedback data available''
                 ''No existing content''])"
  by (simp add: detect_def validate_GapDetectionResult_def stub_llm_def stub_gap_def
        example_queries_def shaping_defs calling_defs str_int_def str_nat.simps digit_def)

lemma analyze_coverage_example:
  "analyze_coverage example_repr example_coercion stub_llm [example_content] [''billing'', ''security''] [] =
     (Inr (Model \<lparr>total_topics = 2, covered_topics = 1, coverage_percentage = 10,
                  well_covered = [''billing''], partially_covered = [],
                  not_covered = [''security''], recommendations = []\<rparr>),
      [CoveragePrompt ''- Billing FAQ: How to pay...'' (''- billing'' @ nl @ ''- security'')])"
  by (simp add: analyze_coverage_def validate_CoverageAnalysis_def stub_llm_def
        example_content_def shaping_defs calling_defs)

lemma analyze_coverage_zero_topics:
  "analyze_coverage example_repr example_coercion (zero_topics_llm pct) [example_content] [''billing'', ''security''] [] =
     (Inr (Model \<lparr>total_topics = 0, covered_topics = 0, coverage_percentage = pct,
                  well_covered = [], partially_covered = [],
                  not_covered = [], recommendations = []\<rparr>),
      [CoveragePrompt ''- Billing FAQ: How to pay...'' (''- billing'' @ nl @ ''- security'')])"
  by (simp add: analyze_coverage_def validate_CoverageAnalysis_def zero_topics_llm_def
        example_content_def shaping_defs calling_defs)

lemmas orchestrator_defs =
  run_full_analysis_def step_detect_def step_coverage_def step_faqs_def step_suggestions_def
  new_report_def content_titles_of_def generate_summary_def attr_def example_env_def
  fmt_1f_def round_half_even_def str_int_def str_nat.simps digit_def Let_def

lemma run_example_a:
  "run_full_analysis example_repr example_coercion stub_llm example_env (Some example_queries) None None
     (Some [example_content]) (Some [''billing'', ''security'']) False True [] =
   (Inr example_report_a, example_sent_a)"
  by (simp add: example_report_a_def example_sent_a_def orchestrator_defs
        detect_def analyze_coverage_def suggest_content_def
        validate_GapDetectionResult_def validate_CoverageAnalysis_def
        validate_ContentSuggestionOutput_def stub_llm_def stub_gap_def
        example_queries_def example_content_def shaping_defs calling_defs)

lemma run_example_b:
  "run_full_analysis example_repr example_coercion stub_llm example_env (Some example_queries)
     (Some example_tickets) None None None True False [] =
   (Inr example_report_b, example_sent_b)"
  by (simp add: example_report_b_def example_sent_b_def orchestrator_defs
        detect_def generate_def validate_GapDetectionResult_def
        validate_FAQGenerationResult_def stub_llm_def stub_gap_def stub_faq_def
        example_queries_def example_tickets_def shaping_defs calling_defs)

lemma run_example_c:
  "run_full_analysis example_repr example_coercion seven_gaps_llm example_env
     (Some example_queries) None None None None False True [] =
   (Inr example_report_c, example_sent_c)"
  by (simp add: example_report_c_def example_sent_c_def orchestrator_defs
        detect_def suggest_content_def validate_GapDetectionResult_def
        validate_ContentSuggestionOutput_def seven_gaps_llm_def example_gap_json_def
        example_gap_def example_suggestion_def example_queries_def shaping_defs calling_defs)

subsection \<open>Content analyzer: identity of the assessed record\<close>

text \<open>
  C4. Whatever the completion service answers, a \<open>ContentQuality\<close> returned by
  \<open>analyze_quality\<close> carries the \<open>id\<close> and the \<open>title\<close> of the input record, with the
  defaults \<open>''''\<close> and \<open>''Untitled''\<close> for a key the record lacks: both keys of the
  response are overwritten before the model is built.
\<close>

theorem analyze_quality_identity:
  assumes "analyze_quality S L llm content sent = (Inr (Model q), sent')"
  shows "PStr (content_id q) = dict_get content ''id'' (PStr '''') \<and>
         PStr (ContentQuality.title q) = dict_get content ''title'' (PStr ''Untitled'')"
proof -
  from assms obtain d where
    "validate_ContentQuality L
       (dict_set ''title'' (dict_get content ''title'' (PStr ''Untitled''))
          (dict_set ''content_id'' (dict_get content ''id'' (PStr '''')) d)) = Inr q"
    by (auto simp: analyze_quality_def call_eq_Inr finish_eq_Model)
  then show ?thesis
    by (auto simp: validate_ContentQuality_def bind_r_eq_Inr required_dict_set
          validate_str_eq_Inr)
qed

text \<open>The stub echoes an identity of its own; the result has the record's.\<close>

theorem analyze_quality_identity_witness:
  "fst (analyze_quality example_repr example_coercion stub_llm example_content []) \<noteq> Inl ValidationError \<and>
   (\<exists>q sent'. analyze_quality example_repr example_coercion stub_llm example_content [] = (Inr (Model q), sent') \<and>
      PStr (content_id q) = PStr ''c-1'' \<and> PStr (ContentQuality.title q) = PStr ''Billing FAQ'')"
proof -
  note run = analyze_quality_example
  from analyze_quality_identity [OF run]
  have "PStr ''c-1'' = dict_get example_content ''id'' (PStr '''') \<and>
        PStr ''Billing FAQ'' = dict_get example_content ''title'' (PStr ''Untitled'')"
    by simp
  with run show ?thesis by simp
qed

subsection \<open>Score fields\<close>

text \<open>
  C1 does not hold of the code. The schemas describe every score as a number from 0 to 1
  (\<^verbatim>\<open>Field(description="Impact score 0-1")\<close> and the like) but declare no bound, so a
  score is validated as a number and nothing more. The stub states 1.5 as the
  \<open>impact_score\<close> of its gap, as the \<open>confidence_score\<close> of its FAQ and as the
  \<open>completeness_score\<close> and \<open>overall_score\<close> of its assessment: \<open>detect\<close>, \<open>generate\<close>
  and \<open>analyze_quality\<close> raise nothing and return results that hold 1.5.
\<close>

theorem out_of_range_scores_returned:
  "fst (detect example_repr example_coercion stub_llm (Some example_queries) None None None []) =
     Inr (Model \<lparr>GapDetectionResult.gaps =
                    [\<lparr>DetectedGap.title = ''Export workflow undocumented'',
                      description = ''No page explains the export'', topic = ''export'',
                      DetectedGap.priority = ''high'', evidence = [''export data''],
                      gap_search_queries = [''export data''], impact_score = 3 / 2,
                      suggested_content = ''Export guide''\<rparr>],
                  analysis_summary = ''one gap'', total_queries_analyzed = 3,
                  total_tickets_analyzed = 0, GapDetectionResult.coverage_score = 0\<rparr>) \<and>
   fst (generate example_repr example_coercion stub_llm (Some example_tickets)
          (Some example_queries) (Some [example_content]) []) =
     Inr (Model \<lparr>FAQGenerationResult.faqs =
                    [\<lparr>question = ''How do I log in?'', answer = ''Use the reset link'',
                      category = ''account'', confidence_score = 3 / 2,
                      source_summary = ''one ticket'', related_questions = [],
                      tags = [''login'']\<rparr>],
                  total_sources_analyzed = 5, categories_covered = [],
                  generation_summary = []\<rparr>) \<and>
   fst (analyze_quality example_repr example_coercion stub_llm example_content []) =
     Inr (Model \<lparr>content_id = ''c-1'', ContentQuality.title = ''Billing FAQ'',
                  completeness_score = 3 / 2, clarity_score = 1 / 2, accuracy_score = 1 / 2,
                  freshness_score = 1 / 2, overall_score = 3 / 2, issues = [],
                  improvements = []\<rparr>) \<and>
   \<not> (3 / 2 \<le> (1 :: real))"
  by (simp add: detect_example generate_example analyze_quality_example)

subsection \<open>Coverage analysis\<close>

lemma validate_CoverageAnalysis_restated:
  assumes "validate_CoverageAnalysis L d = Inr a"
  shows "validate_CoverageAnalysis L
           (dict_set ''coverage_percentage'' (PFloat x)
              (dict_set ''covered_topics'' (PInt c) (dict_set ''total_topics'' (PInt t) d))) =
         Inr (a\<lparr>total_topics := t, covered_topics := c, coverage_percentage := x\<rparr>)"
  using assms
  by (auto simp: validate_CoverageAnalysis_def bind_r_eq_Inr required_dict_set)

lemma required_PInt: "map_of d k = Some (PInt i) \<Longrightarrow> required d k (validate_int L) = Inr j \<Longrightarrow> j = i"
  by (simp add: required_def)

lemma required_PFloat: "map_of d k = Some (PFloat x) \<Longrightarrow> required d k (validate_float L) = Inr y \<Longrightarrow> y = x"
  by (simp add: required_def)

text \<open>
  C2, as the code has it. \<open>analyze_coverage\<close> computes nothing. In a returned
  \<open>CoverageAnalysis\<close>, a count the response states as an integer and a percentage it
  states as a float are returned unchanged. No relation between the three numbers is
  enforced: had the service answered the same prompt with the same dictionary but any
  other \<open>total_topics\<close>, \<open>covered_topics\<close> and \<open>coverage_percentage\<close>, the call would
  have returned the same analysis with those three numbers, also for \<open>total_topics = 0\<close>.
\<close>

theorem coverage_returned_as_stated:
  assumes "analyze_coverage S L llm content_list expected_topics sent = (Inr (Model a), sent')"
  shows "\<exists>p d. analyze_coverage_prompt S content_list expected_topics = Inr p \<and>
           sent' = sent @ [p] \<and> llm sent p = Inr (PDict d) \<and>
           (\<forall>t. map_of d ''total_topics'' = Some (PInt t) \<longrightarrow> total_topics a = t) \<and>
           (\<forall>c. map_of d ''covered_topics'' = Some (PInt c) \<longrightarrow> covered_topics a = c) \<and>
           (\<forall>x. map_of d ''coverage_percentage'' = Some (PFloat x) \<longrightarrow>
                 coverage_percentage a = x) \<and>
           (\<forall>llm' t c x.
              llm' sent p =
                Inr (PDict (dict_set ''coverage_percentage'' (PFloat x)
                              (dict_set ''covered_topics'' (PInt c)
                                 (dict_set ''total_topics'' (PInt t) d)))) \<longrightarrow>
              analyze_coverage S L llm' content_list expected_topics sent =
                (Inr (Model (a\<lparr>total_topics := t, covered_topics := c,
                                coverage_percentage := x\<rparr>)), sent'))"
proof -
  from assms obtain p d where p: "analyze_coverage_prompt S content_list expected_topics = Inr p"
    and s: "sent' = sent @ [p]"
    and d: "llm sent p = Inr (PDict d)" and v: "validate_CoverageAnalysis L d = Inr a"
    by (auto simp: analyze_coverage_def call_eq_Inr finish_eq_Model)
  from v have 1: "\<forall>t. map_of d ''total_topics'' = Some (PInt t) \<longrightarrow> total_topics a = t"
    by (auto simp: validate_CoverageAnalysis_def bind_r_eq_Inr dest: required_PInt)
  from v have 2: "\<forall>c. map_of d ''covered_topics'' = Some (PInt c) \<longrightarrow> covered_topics a = c"
    by (auto simp: validate_CoverageAnalysis_def bind_r_eq_Inr dest: required_PInt)
  from v have 3: "\<forall>x. map_of d ''coverage_percentage'' = Some (PFloat x) \<longrightarrow>
                 coverage_percentage a = x"
    by (auto simp: validate_CoverageAnalysis_def bind_r_eq_Inr dest: required_PFloat)
  have 4: "\<forall>llm' t c x.
              llm' sent p =
                Inr (PDict (dict_set ''coverage_percentage'' (PFloat x)
                              (dict_set ''covered_topics'' (PInt c)
                                 (dict_set ''total_topics'' (PInt t) d)))) \<longrightarrow>
              analyze_coverage S L llm' content_list expected_topics sent =
                (Inr (Model (a\<lparr>total_topics := t, covered_topics := c,
                                coverage_percentage := x\<rparr>)), sent')"
  proof (intro allI impI)
    fix llm' :: service and t c :: int and x :: real
    assume "llm' sent p =
                Inr (PDict (dict_set ''coverage_percentage'' (PFloat x)
                              (dict_set ''covered_topics'' (PInt c)
                                 (dict_set ''total_topics'' (PInt t) d))))"
    with p s validate_CoverageAnalysis_restated [OF v, of x c t]
    show "analyze_coverage S L llm' content_list expected_topics sent =
                (Inr (Model (a\<lparr>total_topics := t, covered_topics := c,
                                coverage_percentage := x\<rparr>)), sent')"
      by (simp add: analyze_coverage_def call_eq_Inr finish_eq_Model)
  qed
  from p s d 1 2 3 4 show ?thesis by blast
qed

text \<open>
  The stub states 1 topic covered out of 2 and a percentage of 10, and that is returned;
  with no topic at all, the percentage returned is whichever one the stub states.
\<close>

theorem coverage_percentage_counterexample:
  "fst (analyze_coverage example_repr example_coercion stub_llm [example_content]
          [''billing'', ''security''] []) =
     Inr (Model \<lparr>total_topics = 2, covered_topics = 1, coverage_percentage = 10,
                  well_covered = [''billing''], partially_covered = [],
                  not_covered = [''security''], recommendations = []\<rparr>) \<and>
   (10 :: real) \<noteq> 1 / 2 * 100 \<and>
   fst (analyze_coverage example_repr example_coercion (zero_topics_llm 10) [example_content]
          [''billing'', ''security''] []) =
     Inr (Model \<lparr>total_topics = 0, covered_topics = 0, coverage_percentage = 10,
                  well_covered = [], partially_covered = [],
                  not_covered = [], recommendations = []\<rparr>) \<and>
   fst (analyze_coverage example_repr example_coercion (zero_topics_llm 20) [example_content]
          [''billing'', ''security''] []) =
     Inr (Model \<lparr>total_topics = 0, covered_topics = 0, coverage_percentage = 20,
                  well_covered = [], partially_covered = [],
                  not_covered = [], recommendations = []\<rparr>)"
  by (simp add: analyze_coverage_example analyze_coverage_zero_topics)

text \<open>
  The stub's answer, and the same answer restated as 5 topics covered out of 0 at 250
  percent: both are returned as they are.
\<close>

theorem coverage_returned_as_stated_witness:
  "fst (analyze_coverage example_repr example_coercion stub_llm [example_content]
          [''billing'', ''security''] []) =
     Inr (Model \<lparr>total_topics = 2, covered_topics = 1, coverage_percentage = 10,
                  well_covered = [''billing''], partially_covered = [],
                  not_covered = [''security''], recommendations = []\<rparr>) \<and>
   fst (analyze_coverage example_repr example_coercion
          (restate stub_llm
             (\<lambda>d. dict_set ''coverage_percentage'' (PFloat 250)
                    (dict_set ''covered_topics'' (PInt 5) (dict_set ''total_topics'' (PInt 0) d))))
          [example_content] [''billing'', ''security''] []) =
     Inr (Model \<lparr>total_topics = 0, covered_topics = 5, coverage_percentage = 250,
                  well_covered = [''billing''], partially_covered = [],
                  not_covered = [''security''], recommendations = []\<rparr>)"
proof -
  note run = analyze_coverage_example
  from coverage_returned_as_stated [OF run] obtain p d where
    d: "stub_llm [] p = Inr (PDict d)"
    and r: "\<forall>llm' t c x.
              llm' [] p =
                Inr (PDict (dict_set ''coverage_percentage'' (PFloat x)
                              (dict_set ''covered_topics'' (PInt c)
                                 (dict_set ''total_topics'' (PInt t) d)))) \<longrightarrow>
              analyze_coverage example_repr example_coercion llm' [example_content]
                [''billing'', ''security''] [] =
                (Inr (Model (\<lparr>total_topics = 2, covered_topics = 1, coverage_percentage = 10,
                  well_covered = [''billing''], partially_covered = [],
                  not_covered = [''security''], recommendations = []\<rparr>
                    \<lparr>total_topics := t, covered_topics := c, coverage_percentage := x\<rparr>)),
                 [CoveragePrompt ''- Billing FAQ: How to pay...'' (''- billing'' @ nl @ ''- security'')])"
    by blast
  let ?f = "\<lambda>d. dict_set ''coverage_percentage'' (PFloat 250)
                    (dict_set ''covered_topics'' (PInt 5) (dict_set ''total_topics'' (PInt 0) d))"
  from d have "restate stub_llm ?f [] p = Inr (PDict (?f d))"
    by (simp add: restate_def)
  with r have "analyze_coverage example_repr example_coercion (restate stub_llm ?f) [example_content]
                [''billing'', ''security''] [] =
                (Inr (Model (\<lparr>total_topics = 2, covered_topics = 1, coverage_percentage = 10,
                  well_covered = [''billing''], partially_covered = [],
                  not_covered = [''security''], recommendations = []\<rparr>
                    \<lparr>total_topics := 0, covered_topics := 5, coverage_percentage := 250\<rparr>)),
                 [CoveragePrompt ''- Billing FAQ: How to pay...'' (''- billing'' @ nl @ ''- security'')])"
    by blast
  with run show ?thesis by simp
qed

subsection \<open>Gap detector: the counts\<close>

text \<open>
  Whatever counts the response states, a result of \<open>detect\<close> has the lengths of the
  search queries and of the support tickets it was given, an absent list counting 0:
  both keys of the response are overwritten before the model is built.
\<close>

theorem detect_counts:
  assumes "detect S L llm search_queries support_tickets user_feedback existing_content sent =
           (Inr (Model r), sent')"
  shows "total_queries_analyzed r = int (length (items search_queries)) \<and>
         total_tickets_analyzed r = int (length (items support_tickets))"
proof -
  from assms obtain d where
    "validate_GapDetectionResult L
       (dict_set ''total_tickets_analyzed'' (PInt (int (length (items support_tickets))))
          (dict_set ''total_queries_analyzed'' (PInt (int (length (items search_queries)))) d)) =
     Inr r"
    by (auto simp: detect_def call_eq_Inr finish_eq_Model len_if_truthy)
  then show ?thesis
    by (auto simp: validate_GapDetectionResult_def bind_r_eq_Inr optional_dict_set)
qed

text \<open>Three queries and no ticket; the stub states 99 queries and 7 tickets.\<close>

theorem detect_counts_witness:
  "(\<exists>r sent'. detect example_repr example_coercion stub_llm (Some example_queries) None None None [] =
        (Inr (Model r), sent') \<and>
      total_queries_analyzed r = 3 \<and> total_tickets_analyzed r = 0) \<and>
   length example_queries = 3"
proof -
  note run = detect_example
  from detect_counts [OF run] run show ?thesis
    by (simp add: items_def example_queries_def)
qed

text \<open>
  C3 fails on the two single-source entry points. Each overwrites the count of its own
  source only, so the other count is the one the service states: the stub states 99
  queries and 7 tickets, \<open>detect_from_searches\<close> is given three queries and no ticket
  and returns 7 tickets analysed, \<open>detect_from_tickets\<close> is given two tickets and no
  query and returns 99 queries analysed.
\<close>

theorem detect_from_searches_keeps_stated_tickets:
  "fst (detect_from_searches S L stub_llm example_queries None []) =
     Inr (Model \<lparr>GapDetectionResult.gaps =
                    [\<lparr>DetectedGap.title = ''Export workflow undocumented'',
                      description = ''No page explains the export'', topic = ''export'',
                      DetectedGap.priority = ''high'', evidence = [''export data''],
                      gap_search_queries = [''export data''], impact_score = 3 / 2,
                      suggested_content = ''Export guide''\<rparr>],
                  analysis_summary = ''one gap'', total_queries_analyzed = 3,
                  total_tickets_analyzed = 7, GapDetectionResult.coverage_score = 0\<rparr>) \<and>
   fst (detect_from_tickets S L stub_llm example_tickets None []) =
     Inr (Model \<lparr>GapDetectionResult.gaps =
                    [\<lparr>DetectedGap.title = ''Export workflow undocumented'',
                      description = ''No page explains the export'', topic = ''export'',
                      DetectedGap.priority = ''high'', evidence = [''export data''],
                      gap_search_queries = [''export data''], impact_score = 3 / 2,
                      suggested_content = ''Export guide''\<rparr>],
                  analysis_summary = ''one gap'', total_queries_analyzed = 99,
                  total_tickets_analyzed = 2, GapDetectionResult.coverage_score = 0\<rparr>)"
  by (simp add: detect_from_searches_def detect_from_tickets_def validate_GapDetectionResult_def
        stub_llm_def stub_gap_def example_queries_def example_tickets_def shaping_defs calling_defs)

subsection \<open>FAQ generator: the number of sources\<close>

text \<open>
  C9. Whatever count the response states, the \<open>total_sources_analyzed\<close> of a result of
  \<open>generate\<close> is the number of tickets plus the number of queries, an absent list
  counting 0. The documentation list does not enter the count.
\<close>

theorem generate_total_sources:
  assumes "generate S L llm tickets queries documentation sent = (Inr (Model r), sent')"
  shows "total_sources_analyzed r = int (length (items tickets)) + int (length (items queries))"
proof -
  from assms obtain d where
    "validate_FAQGenerationResult L
       (dict_set ''total_sources_analyzed''
          (PInt ((if truthy tickets then int (length (items tickets)) else 0) +
                 (if truthy queries then int (length (items queries)) else 0))) d) = Inr r"
    by (auto simp: generate_def call_eq_Inr finish_eq_Model)
  then show ?thesis
    by (auto simp: validate_FAQGenerationResult_def bind_r_eq_Inr optional_dict_set len_if_truthy)
qed

text \<open>Two tickets, three queries and one document; the stub states 99 sources.\<close>

theorem generate_total_sources_witness:
  "(\<exists>r sent'. generate example_repr example_coercion stub_llm (Some example_tickets) (Some example_queries)
        (Some [example_content]) [] = (Inr (Model r), sent') \<and>
      total_sources_analyzed r = 5) \<and>
   length example_tickets = 2 \<and> length example_queries = 3"
proof -
  note run = generate_example
  from generate_total_sources [OF run] run show ?thesis
    by (simp add: items_def example_tickets_def example_queries_def)
qed

subsection \<open>Gap detector: the first fifty search queries\<close>










subsection \<open>Orchestrator: a completed run, step by step\<close>

lemma attr_eq_Inr: "(attr r = Inr m) = (r = Model m)"
  by (cases r) (auto simp: attr_def)

lemma step_detect_Inr:
  assumes "step_detect S L llm search_queries support_tickets user_feedback content_titles
             report sent = (Inr (gap_result, report1), sent1)"
  shows "\<exists>a b c d. sent1 = sent @ [GapPrompt a b c d] \<and>
           report1 = report\<lparr>gaps := GapDetectionResult.gaps gap_result,
                            gaps_found := int (length (GapDetectionResult.gaps gap_result))\<rparr>"
proof -
  from assms obtain p where
    p: "detect_prompt S search_queries support_tickets user_feedback (Some content_titles) = Inr p"
    and s: "sent1 = sent @ [p]"
    and r: "report1 = report\<lparr>gaps := GapDetectionResult.gaps gap_result,
                            gaps_found := int (length (GapDetectionResult.gaps gap_result))\<rparr>"
    by (auto simp: step_detect_def bind_io_eq_Inr attr_eq_Inr detect_def call_eq_Inr)
  from p obtain a b c d where "p = GapPrompt a b c d"
    by (auto simp: detect_prompt_def Let_def bind_r_eq_Inr)
  with s r show ?thesis by blast
qed

lemma step_coverage_Inr:
  assumes "step_coverage S L llm existing_content expected_topics report sent = (Inr report2, sent2)"
  shows "(truthy expected_topics \<and> truthy existing_content \<and>
          (\<exists>a b x. sent2 = sent @ [CoveragePrompt a b] \<and> report2 = report\<lparr>coverage_score := x\<rparr>)) \<or>
         (\<not> (truthy expected_topics \<and> truthy existing_content) \<and> sent2 = sent \<and> report2 = report)"
proof (cases "truthy expected_topics \<and> truthy existing_content")
  case True
  with assms obtain p x where
    p: "analyze_coverage_prompt S (items existing_content) (items expected_topics) = Inr p"
    and s: "sent2 = sent @ [p]" and r: "report2 = report\<lparr>coverage_score := x\<rparr>"
    by (auto simp: step_coverage_def bind_io_eq_Inr attr_eq_Inr analyze_coverage_def call_eq_Inr)
  from p obtain a b where "p = CoveragePrompt a b"
    by (auto simp: analyze_coverage_prompt_def Let_def bind_r_eq_Inr)
  with s r True show ?thesis by blast
next
  case False
  with assms show ?thesis by (auto simp: step_coverage_def)
qed

lemma step_faqs_Inr:
  assumes "step_faqs S L llm generate_faqs support_tickets search_queries existing_content
             report sent = (Inr report3, sent3)"
  shows "(generate_faqs \<and> truthy support_tickets \<and>
          (\<exists>a b c fs. sent3 = sent @ [FAQPrompt a b c] \<and>
             report3 = report\<lparr>faqs := fs, faqs_generated := int (length fs)\<rparr>)) \<or>
         (\<not> (generate_faqs \<and> truthy support_tickets) \<and> sent3 = sent \<and> report3 = report)"
proof (cases "generate_faqs \<and> truthy support_tickets")
  case True
  with assms obtain p fs where
    p: "generate_prompt S support_tickets search_queries existing_content = Inr p"
    and s: "sent3 = sent @ [p]"
    and r: "report3 = report\<lparr>faqs := fs, faqs_generated := int (length fs)\<rparr>"
    by (auto simp: step_faqs_def bind_io_eq_Inr attr_eq_Inr generate_def call_eq_Inr)
  from p obtain a b c where "p = FAQPrompt a b c"
    by (auto simp: generate_prompt_def Let_def bind_r_eq_Inr)
  with s r True show ?thesis by blast
next
  case False
  with assms show ?thesis by (auto simp: step_faqs_def)
qed

lemma suggest_content_Inr:
  "suggest_content llm t d ec sent = (Inr s, sent') \<Longrightarrow>
   \<exists>p. suggest_content_prompt t d ec = Inr p \<and> sent' = sent @ [p]"
  by (auto simp: suggest_content_def call_eq_Inr)

lemma suggest_loop_Inr:
  "suggest_loop llm ct gs report sent = (Inr report', sent') \<Longrightarrow>
   \<exists>ps ss. sent' = sent @ ps \<and> report' = report\<lparr>suggestions := suggestions report @ ss\<rparr> \<and>
      length ss = length gs \<and>
      map Inr ps = map (\<lambda>g. suggest_content_prompt (DetectedGap.title g) (description g)
                               (Some (take 10 ct))) gs \<and>
      (\<forall>i<length gs. fst (suggest_content llm (DetectedGap.title (gs ! i)) (description (gs ! i))
                              (Some (take 10 ct)) (sent @ take i ps)) = Inr (ss ! i))"
proof (induction gs arbitrary: report sent)
  case Nil
  then show ?case by simp
next
  case (Cons g gs)
  from Cons.prems obtain s sent1 where
    c: "suggest_content llm (DetectedGap.title g) (description g) (Some (take 10 ct)) sent =
          (Inr s, sent1)"
    and l: "suggest_loop llm ct gs (report\<lparr>suggestions := suggestions report @ [s]\<rparr>) sent1 =
          (Inr report', sent')"
    by (auto split: prod.splits sum.splits)
  from suggest_content_Inr [OF c] obtain p where
    p: "suggest_content_prompt (DetectedGap.title g) (description g) (Some (take 10 ct)) = Inr p"
    and s1: "sent1 = sent @ [p]" by blast
  from Cons.IH [OF l] obtain ps ss where
    a: "sent' = sent1 @ ps"
    and b: "report' = report\<lparr>suggestions := suggestions report @ [s]\<rparr>
              \<lparr>suggestions := suggestions (report\<lparr>suggestions := suggestions report @ [s]\<rparr>) @ ss\<rparr>"
    and n: "length ss = length gs"
    and m: "map Inr ps = map (\<lambda>g. suggest_content_prompt (DetectedGap.title g) (description g)
                               (Some (take 10 ct))) gs"
    and f: "\<forall>i<length gs. fst (suggest_content llm (DetectedGap.title (gs ! i)) (description (gs ! i))
                              (Some (take 10 ct)) (sent1 @ take i ps)) = Inr (ss ! i)"
    by blast
  have "\<forall>i<length (g # gs).
          fst (suggest_content llm (DetectedGap.title ((g # gs) ! i)) (description ((g # gs) ! i))
                 (Some (take 10 ct)) (sent @ take i (p # ps))) = Inr ((s # ss) ! i)"
  proof (intro allI impI)
    fix i assume "i < length (g # gs)"
    then show "fst (suggest_content llm (DetectedGap.title ((g # gs) ! i)) (description ((g # gs) ! i))
                 (Some (take 10 ct)) (sent @ take i (p # ps))) = Inr ((s # ss) ! i)"
      using c f s1 by (cases i) auto
  qed
  with a b n m p s1 show ?case
    by (intro exI [of _ "p # ps"] exI [of _ "s # ss"]) simp
qed

lemma step_suggestions_Inr:
  assumes "step_suggestions llm generate_suggestions gap_result ct report sent = (Inr report4, sent4)"
  shows "(generate_suggestions \<and>
          (\<exists>ps ss. sent4 = sent @ ps \<and>
             report4 = report\<lparr>suggestions := suggestions report @ ss,
                              suggestions_created := int (length (suggestions report @ ss))\<rparr> \<and>
             length ss = length (take 5 (GapDetectionResult.gaps gap_result)) \<and>
             map Inr ps = map (\<lambda>g. suggest_content_prompt (DetectedGap.title g) (description g)
                               (Some (take 10 ct))) (take 5 (GapDetectionResult.gaps gap_result)) \<and>
             (\<forall>i<length (take 5 (GapDetectionResult.gaps gap_result)).
                 fst (suggest_content llm
                        (DetectedGap.title (take 5 (GapDetectionResult.gaps gap_result) ! i))
                        (description (take 5 (GapDetectionResult.gaps gap_result) ! i))
                        (Some (take 10 ct)) (sent @ take i ps)) = Inr (ss ! i)))) \<or>
         (\<not> generate_suggestions \<and> sent4 = sent \<and> report4 = report)"
proof (cases generate_suggestions)
  case True
  with assms obtain r where
    l: "suggest_loop llm ct (take 5 (GapDetectionResult.gaps gap_result)) report sent = (Inr r, sent4)"
    and r: "report4 = r\<lparr>suggestions_created := int (length (suggestions r))\<rparr>"
    by (auto simp: step_suggestions_def bind_io_eq_Inr)
  from suggest_loop_Inr [OF l] obtain ps ss where
    a: "sent4 = sent @ ps"
    and b: "r = report\<lparr>suggestions := suggestions report @ ss\<rparr>"
    and c: "length ss = length (take 5 (GapDetectionResult.gaps gap_result))"
    and d: "map Inr ps = map (\<lambda>g. suggest_content_prompt (DetectedGap.title g) (description g)
                               (Some (take 10 ct))) (take 5 (GapDetectionResult.gaps gap_result))"
    and e: "\<forall>i<length (take 5 (GapDetectionResult.gaps gap_result)).
                 fst (suggest_content llm
                        (DetectedGap.title (take 5 (GapDetectionResult.gaps gap_result) ! i))
                        (description (take 5 (GapDetectionResult.gaps gap_result) ! i))
                        (Some (take 10 ct)) (sent @ take i ps)) = Inr (ss ! i)"
    by blast
  from b r have "report4 = report\<lparr>suggestions := suggestions report @ ss,
                              suggestions_created := int (length (suggestions report @ ss))\<rparr>"
    by simp
  with True a c d e show ?thesis by blast
next
  case False
  with assms show ?thesis by (auto simp: step_suggestions_def)
qed

lemma step_suggestions_True:
  assumes "step_suggestions llm True gap_result ct report sent = (Inr report4, sent4)"
  shows "\<exists>ps ss. sent4 = sent @ ps \<and>
             report4 = report\<lparr>suggestions := suggestions report @ ss,
                              suggestions_created := int (length (suggestions report @ ss))\<rparr> \<and>
             length ss = length (take 5 (GapDetectionResult.gaps gap_result)) \<and>
             map Inr ps = map (\<lambda>g. suggest_content_prompt (DetectedGap.title g) (description g)
                               (Some (take 10 ct))) (take 5 (GapDetectionResult.gaps gap_result)) \<and>
             (\<forall>i<length (take 5 (GapDetectionResult.gaps gap_result)).
                 fst (suggest_content llm
                        (DetectedGap.title (take 5 (GapDetectionResult.gaps gap_result) ! i))
                        (description (take 5 (GapDetectionResult.gaps gap_result) ! i))
                        (Some (take 10 ct)) (sent @ take i ps)) = Inr (ss ! i))"
  using step_suggestions_Inr [OF assms] by simp



lemma run_full_analysis_Inr:
  assumes "run_full_analysis S L llm env search_queries support_tickets user_feedback
             existing_content expected_topics generate_faqs generate_suggestions sent =
           (Inr report, sent')"
  shows "\<exists>gap_result report1 sent1 report2 sent2 report3 sent3 report4.
           step_detect S L llm search_queries support_tickets user_feedback
             (content_titles_of existing_content) (new_report env) sent =
             (Inr (gap_result, report1), sent1) \<and>
           step_coverage S L llm existing_content expected_topics report1 sent1 =
             (Inr report2, sent2) \<and>
           step_faqs S L llm generate_faqs support_tickets search_queries existing_content
             report2 sent2 = (Inr report3, sent3) \<and>
           step_suggestions llm generate_suggestions gap_result
             (content_titles_of existing_content) report3 sent3 = (Inr report4, sent') \<and>
           report = report4\<lparr>summary := generate_summary report4 gap_result,
                            duration_seconds := time_end env - time_start env\<rparr>"
  using assms
  by (simp add: run_full_analysis_def Let_def bind_io_eq_Inr split_paired_Ex) blast

lemma fmt_1f_zero: "fmt_1f 0 = ''0.0''"
  by (simp add: fmt_1f_def round_half_even_def str_nat.simps digit_def)

lemma generate_summary_prefix:
  "\<exists>rest. generate_summary r g =
     ''Analysis completed in '' @ fmt_1f (duration_seconds r) @ '' seconds. Identified '' @
     str_int (gaps_found r) @ '' knowledge gaps.'' @ rest"
  by (simp add: generate_summary_def Let_def)

lemma map_r_nth:
  "map_r f vs = Inr ys \<Longrightarrow>
   length ys = length vs \<and> (\<forall>i<length vs. f (vs ! i) = Inr (ys ! i))"
proof (induction vs arbitrary: ys)
  case Nil
  then show ?case by simp
next
  case (Cons v vs)
  then obtain y ys' where y: "f v = Inr y" and m: "map_r f vs = Inr ys'" and e: "ys = y # ys'"
    by (auto simp: bind_r_eq_Inr)
  from Cons.IH [OF m] y e show ?case
    by (auto simp: nth_Cons split: nat.splits)
qed

lemma detect_gaps_in_response_order:
  assumes "detect S L llm search_queries support_tickets user_feedback existing_content sent =
           (Inr (Model r), sent')"
  shows "\<exists>p d. sent' = sent @ [p] \<and> llm sent p = Inr (PDict d) \<and>
           (\<forall>vs. map_of d ''gaps'' = Some (PList vs) \<longrightarrow>
              length (GapDetectionResult.gaps r) = length vs \<and>
              (\<forall>i<length vs. validate_DetectedGap L (vs ! i) =
                               Inr (GapDetectionResult.gaps r ! i)))"
proof -
  from assms obtain p d where s: "sent' = sent @ [p]" and d: "llm sent p = Inr (PDict d)"
    and v: "validate_GapDetectionResult L
              (dict_set ''total_tickets_analyzed''
                 (PInt (int (length (items support_tickets))))
                 (dict_set ''total_queries_analyzed''
                    (PInt (int (length (items search_queries)))) d)) = Inr r"
    by (auto simp: detect_def call_eq_Inr finish_eq_Model len_if_truthy)
  from v have o: "optional d ''gaps'' [] (validate_list (validate_DetectedGap L)) =
      Inr (GapDetectionResult.gaps r)"
    by (auto simp: validate_GapDetectionResult_def bind_r_eq_Inr optional_dict_set)
  have "\<forall>vs. map_of d ''gaps'' = Some (PList vs) \<longrightarrow>
              length (GapDetectionResult.gaps r) = length vs \<and>
              (\<forall>i<length vs. validate_DetectedGap L (vs ! i) =
                               Inr (GapDetectionResult.gaps r ! i))"
  proof (intro allI impI)
    fix vs assume "map_of d ''gaps'' = Some (PList vs)"
    with o have "map_r (validate_DetectedGap L) vs = Inr (GapDetectionResult.gaps r)"
      by (simp add: optional_def)
    then show "length (GapDetectionResult.gaps r) = length vs \<and>
              (\<forall>i<length vs. validate_DetectedGap L (vs ! i) =
                               Inr (GapDetectionResult.gaps r ! i))"
      by (rule map_r_nth)
  qed
  with s d show ?thesis by blast
qed

lemma step_detect_detect:
  assumes "step_detect S L llm search_queries support_tickets user_feedback content_titles
             report sent = (Inr (gap_result, report1), sent1)"
  shows "detect S L llm search_queries support_tickets user_feedback (Some content_titles) sent =
           (Inr (Model gap_result), sent1)"
  using assms by (auto simp: step_detect_def bind_io_eq_Inr attr_eq_Inr)

subsection \<open>Orchestrator: suggestions\<close>

text \<open>
  C6. In a completed run with \<open>generate_suggestions\<close> set, let \<open>gap_result\<close> be what
  \<open>detect\<close> returned for the first prompt of the run. Its gaps are the validated items
  of the response's \<open>gaps\<close> list, position by position, and they are the gaps of the
  report. The prompts sent after the first are some prompts of the coverage and FAQ
  steps, none of them a suggestion prompt, followed by exactly the suggestion prompts of
  the first five gaps of \<open>gap_result\<close>, one per gap, in their order. The report has
  \<open>min 5 (length gaps)\<close> suggestions, and its i-th suggestion is what \<open>suggest_content\<close>
  returned for the i-th gap, called after the prompts before it.
\<close>

theorem suggestions_first_five_in_order:
  assumes "run_full_analysis S L llm env search_queries support_tickets user_feedback
             existing_content expected_topics generate_faqs True sent = (Inr report, sent')"
  shows "\<exists>gap_result p d pre ps.
           detect S L llm search_queries support_tickets user_feedback
             (Some (content_titles_of existing_content)) sent =
             (Inr (Model gap_result), sent @ [p]) \<and>
           llm sent p = Inr (PDict d) \<and>
           (\<forall>vs. map_of d ''gaps'' = Some (PList vs) \<longrightarrow>
              length (GapDetectionResult.gaps gap_result) = length vs \<and>
              (\<forall>i<length vs. validate_DetectedGap L (vs ! i) =
                               Inr (GapDetectionResult.gaps gap_result ! i))) \<and>
           gaps report = GapDetectionResult.gaps gap_result \<and>
           gaps_found report = int (length (GapDetectionResult.gaps gap_result)) \<and>
           sent' = sent @ [p] @ pre @ ps \<and> \<not> list_ex is_suggestion_prompt (p # pre) \<and>
           map Inr ps =
             map (\<lambda>g. suggest_content_prompt (DetectedGap.title g) (description g)
                        (Some (take 10 (content_titles_of existing_content))))
                 (take 5 (GapDetectionResult.gaps gap_result)) \<and>
           length (suggestions report) = min 5 (length (GapDetectionResult.gaps gap_result)) \<and>
           (\<forall>i<length (suggestions report).
              fst (suggest_content llm
                     (DetectedGap.title (GapDetectionResult.gaps gap_result ! i))
                     (description (GapDetectionResult.gaps gap_result ! i))
                     (Some (take 10 (content_titles_of existing_content)))
                     (sent @ [p] @ pre @ take i ps)) = Inr (suggestions report ! i))"
proof -
  from run_full_analysis_Inr [OF assms] obtain gap_result report1 sent1 report2 sent2 report3
      sent3 report4 where
    s1: "step_detect S L llm search_queries support_tickets user_feedback
             (content_titles_of existing_content) (new_report env) sent =
             (Inr (gap_result, report1), sent1)"
    and s2: "step_coverage S L llm existing_content expected_topics report1 sent1 =
             (Inr report2, sent2)"
    and s3: "step_faqs S L llm generate_faqs support_tickets search_queries existing_content
             report2 sent2 = (Inr report3, sent3)"
    and s4: "step_suggestions llm True gap_result
             (content_titles_of existing_content) report3 sent3 = (Inr report4, sent')"
    and r: "report = report4\<lparr>summary := generate_summary report4 gap_result,
                            duration_seconds := time_end env - time_start env\<rparr>"
    by blast
  let ?gs = "GapDetectionResult.gaps gap_result"
  note dt = step_detect_detect [OF s1]
  from detect_gaps_in_response_order [OF dt] obtain p d where
    l1: "sent1 = sent @ [p]" and d: "llm sent p = Inr (PDict d)"
    and o: "\<forall>vs. map_of d ''gaps'' = Some (PList vs) \<longrightarrow>
              length ?gs = length vs \<and>
              (\<forall>i<length vs. validate_DetectedGap L (vs ! i) = Inr (?gs ! i))"
    by blast
  from step_detect_Inr [OF s1] l1 obtain a b c e where
    g: "p = GapPrompt a b c e"
    and r1: "gaps report1 = ?gs \<and> gaps_found report1 = int (length ?gs) \<and>
             suggestions report1 = []"
    by (auto simp: new_report_def)
  from step_coverage_Inr [OF s2] r1 obtain p2 where
    l2: "sent2 = sent1 @ p2" and n2: "\<not> list_ex is_suggestion_prompt p2"
    and r2: "gaps report2 = ?gs \<and> gaps_found report2 = int (length ?gs) \<and>
             suggestions report2 = []"
    by (elim disjE conjE exE) auto
  from step_faqs_Inr [OF s3] r2 obtain p3 where
    l3: "sent3 = sent2 @ p3" and n3: "\<not> list_ex is_suggestion_prompt p3"
    and r3: "gaps report3 = ?gs \<and> gaps_found report3 = int (length ?gs) \<and>
             suggestions report3 = []"
    by (elim disjE conjE exE) auto
  from step_suggestions_True [OF s4] obtain ps ss where
    l4: "sent' = sent3 @ ps"
    and r4: "report4 = report3\<lparr>suggestions := suggestions report3 @ ss,
                suggestions_created := int (length (suggestions report3 @ ss))\<rparr>"
    and n4: "length ss = length (take 5 ?gs)"
    and m4: "map Inr ps = map (\<lambda>g. suggest_content_prompt (DetectedGap.title g) (description g)
                (Some (take 10 (content_titles_of existing_content)))) (take 5 ?gs)"
    and f4: "\<forall>i<length (take 5 ?gs).
               fst (suggest_content llm (DetectedGap.title (take 5 ?gs ! i))
                      (description (take 5 ?gs ! i))
                      (Some (take 10 (content_titles_of existing_content)))
                      (sent3 @ take i ps)) = Inr (ss ! i)"
    by blast
  let ?pre = "p2 @ p3"
  from r r3 r4 have gr: "gaps report = ?gs" and gf: "gaps_found report = int (length ?gs)"
    and sg: "suggestions report = ss"
    by simp_all
  have c0: "detect S L llm search_queries support_tickets user_feedback
             (Some (content_titles_of existing_content)) sent =
             (Inr (Model gap_result), sent @ [p])"
    using dt l1 by simp
  have c1: "sent' = sent @ [p] @ ?pre @ ps" using l1 l2 l3 l4 by simp
  have c2: "\<not> list_ex is_suggestion_prompt (p # ?pre)" using n2 n3 g by simp
  have c4: "length (suggestions report) = min 5 (length ?gs)"
    using sg n4 by simp
  have c5: "\<forall>i<length (suggestions report).
              fst (suggest_content llm (DetectedGap.title (?gs ! i)) (description (?gs ! i))
                     (Some (take 10 (content_titles_of existing_content)))
                     (sent @ [p] @ ?pre @ take i ps)) = Inr (suggestions report ! i)"
  proof (intro allI impI)
    fix i assume "i < length (suggestions report)"
    with sg n4 have i: "i < length (take 5 ?gs)" by simp
    then have t: "take 5 ?gs ! i = ?gs ! i" by simp
    have e: "sent @ [p] @ ?pre @ take i ps = sent3 @ take i ps" using l1 l2 l3 by simp
    from f4 i have "fst (suggest_content llm (DetectedGap.title (take 5 ?gs ! i))
                      (description (take 5 ?gs ! i))
                      (Some (take 10 (content_titles_of existing_content)))
                      (sent3 @ take i ps)) = Inr (ss ! i)"
      by blast
    then show "fst (suggest_content llm (DetectedGap.title (?gs ! i)) (description (?gs ! i))
                     (Some (take 10 (content_titles_of existing_content)))
                     (sent @ [p] @ ?pre @ take i ps)) = Inr (suggestions report ! i)"
      unfolding t e sg .
  qed
  from c0 d o gr gf c1 c2 m4 c4 c5 show ?thesis
    by (intro exI [of _ gap_result] exI [of _ p] exI [of _ d] exI [of _ ?pre] exI [of _ ps] conjI)
qed

text \<open>
  Seven gaps, the critical ones sixth and seventh: the suggestions are those of the
  first five, in the order of the response.
\<close>

theorem suggestions_first_five_in_order_witness:
  "run_full_analysis example_repr example_coercion seven_gaps_llm example_env
     (Some example_queries) None None None None False True [] =
     (Inr example_report_c, example_sent_c) \<and>
   map DetectedGap.title (gaps example_report_c) =
     [''g1'', ''g2'', ''g3'', ''g4'', ''g5'', ''g6'', ''g7''] \<and>
   map DetectedGap.priority (gaps example_report_c) =
     [''low'', ''medium'', ''low'', ''high'', ''low'', ''critical'', ''critical''] \<and>
   suggestions example_report_c =
     map (\<lambda>t. Model (example_suggestion t)) [''g1'', ''g2'', ''g3'', ''g4'', ''g5''] \<and>
   (\<exists>p pre ps. example_sent_c = [p] @ pre @ ps \<and> \<not> list_ex is_suggestion_prompt (p # pre) \<and>
      ps = map (\<lambda>t. SuggestionPrompt t (''About '' @ t) ''No related content'')
             [''g1'', ''g2'', ''g3'', ''g4'', ''g5''])"
proof -
  from suggestions_first_five_in_order [OF run_example_c]
  obtain gap_result :: GapDetectionResult and p pre ps where
    g: "gaps example_report_c = GapDetectionResult.gaps gap_result"
    and a: "example_sent_c = [] @ [p] @ pre @ ps"
    and b: "\<not> list_ex is_suggestion_prompt (p # pre)"
    and c: "map Inr ps =
             map (\<lambda>g. suggest_content_prompt (DetectedGap.title g) (description g)
                        (Some (take 10 (content_titles_of None))))
                 (take 5 (GapDetectionResult.gaps gap_result))"
  proof (elim exE conjE)
    fix gap_result :: GapDetectionResult and p d pre ps
    assume 1: "gaps example_report_c = GapDetectionResult.gaps gap_result"
      and 2: "example_sent_c = [] @ [p] @ pre @ ps"
      and 3: "\<not> list_ex is_suggestion_prompt (p # pre)"
      and 4: "map Inr ps =
             map (\<lambda>g. suggest_content_prompt (DetectedGap.title g) (description g)
                        (Some (take 10 (content_titles_of None))))
                 (take 5 (GapDetectionResult.gaps gap_result))"
    show thesis by (rule that [OF 1 2 3 4])
  qed
  from c g [symmetric] have "(map Inr ps :: (error + prompt) list) =
      map Inr (map (\<lambda>t. SuggestionPrompt t (''About '' @ t) ''No related content'')
             [''g1'', ''g2'', ''g3'', ''g4'', ''g5''])"
    by (simp add: example_report_c_def example_gap_def suggest_content_prompt_def
          titles_text_def truthy_def content_titles_of_def bind_r_def del: map_map)
  then have "ps = map (\<lambda>t. SuggestionPrompt t (''About '' @ t) ''No related content'')
             [''g1'', ''g2'', ''g3'', ''g4'', ''g5'']"
    by (rule map_injective) (simp add: inj_on_def)
  with a b run_example_c show ?thesis
    by (auto simp: example_report_c_def example_gap_def)
qed

subsection \<open>Orchestrator: conditional steps\<close>



subsection \<open>Orchestrator: counts\<close>

text \<open>
  C8. In the report of every completed run, \<open>gaps_found\<close>, \<open>faqs_generated\<close> and
  \<open>suggestions_created\<close> are the lengths of \<open>gaps\<close>, \<open>faqs\<close> and \<open>suggestions\<close>.
\<close>

theorem report_counts:
  assumes "run_full_analysis S L llm env search_queries support_tickets user_feedback
             existing_content expected_topics generate_faqs generate_suggestions sent =
           (Inr report, sent')"
  shows "gaps_found report = int (length (gaps report)) \<and>
         faqs_generated report = int (length (faqs report)) \<and>
         suggestions_created report = int (length (suggestions report))"
proof -
  from run_full_analysis_Inr [OF assms] obtain gap_result report1 sent1 report2 sent2 report3
      sent3 report4 where
    s1: "step_detect S L llm search_queries support_tickets user_feedback
             (content_titles_of existing_content) (new_report env) sent =
             (Inr (gap_result, report1), sent1)"
    and s2: "step_coverage S L llm existing_content expected_topics report1 sent1 =
             (Inr report2, sent2)"
    and s3: "step_faqs S L llm generate_faqs support_tickets search_queries existing_content
             report2 sent2 = (Inr report3, sent3)"
    and s4: "step_suggestions llm generate_suggestions gap_result
             (content_titles_of existing_content) report3 sent3 = (Inr report4, sent')"
    and r: "report = report4\<lparr>summary := generate_summary report4 gap_result,
                            duration_seconds := time_end env - time_start env\<rparr>"
    by blast
  from step_detect_Inr [OF s1] have 1:
    "gaps_found report1 = int (length (gaps report1)) \<and> faqs report1 = [] \<and>
     faqs_generated report1 = 0 \<and> suggestions report1 = [] \<and> suggestions_created report1 = 0"
    by (auto simp: new_report_def)
  from step_coverage_Inr [OF s2] 1 have 2:
    "gaps_found report2 = int (length (gaps report2)) \<and> faqs report2 = [] \<and>
     faqs_generated report2 = 0 \<and> suggestions report2 = [] \<and> suggestions_created report2 = 0"
    by auto
  from step_faqs_Inr [OF s3] 2 have 3:
    "gaps_found report3 = int (length (gaps report3)) \<and>
     faqs_generated report3 = int (length (faqs report3)) \<and>
     suggestions report3 = [] \<and> suggestions_created report3 = 0"
    by auto
  from step_suggestions_Inr [OF s4] 3 have 4:
    "gaps_found report4 = int (length (gaps report4)) \<and>
     faqs_generated report4 = int (length (faqs report4)) \<and>
     suggestions_created report4 = int (length (suggestions report4))"
    by auto
  with r show ?thesis by simp
qed

theorem report_counts_witness:
  "run_full_analysis example_repr example_coercion stub_llm example_env (Some example_queries)
     (Some example_tickets) None None None True False [] =
     (Inr example_report_b, example_sent_b) \<and>
   gaps_found example_report_b = int (length (gaps example_report_b)) \<and>
   faqs_generated example_report_b = int (length (faqs example_report_b)) \<and>
   suggestions_created example_report_b = int (length (suggestions example_report_b)) \<and>
   length (gaps example_report_b) = 1 \<and> length (faqs example_report_b) = 1"
  using report_counts [OF run_example_b] run_example_b
  by (simp add: example_report_b_def)

subsection \<open>Orchestrator: the summary and the duration\<close>

text \<open>
  C10. The summary is composed before \<open>duration_seconds\<close> is assigned, while it still
  is 0: the summary of every completed run begins with
  \<open>Analysis completed in 0.0 seconds.\<close>, whatever the two clock readings are, and the
  \<open>duration_seconds\<close> of the report is their difference.
\<close>

theorem summary_reports_zero_duration:
  assumes "run_full_analysis S L llm env search_queries support_tickets user_feedback
             existing_content expected_topics generate_faqs generate_suggestions sent =
           (Inr report, sent')"
  shows "(\<exists>rest. summary report =
            ''Analysis completed in 0.0 seconds. Identified '' @ str_int (gaps_found report) @
            '' knowledge gaps.'' @ rest) \<and>
         duration_seconds report = time_end env - time_start env"
proof -
  from run_full_analysis_Inr [OF assms] obtain gap_result report1 sent1 report2 sent2 report3
      sent3 report4 where
    s1: "step_detect S L llm search_queries support_tickets user_feedback
             (content_titles_of existing_content) (new_report env) sent =
             (Inr (gap_result, report1), sent1)"
    and s2: "step_coverage S L llm existing_content expected_topics report1 sent1 =
             (Inr report2, sent2)"
    and s3: "step_faqs S L llm generate_faqs support_tickets search_queries existing_content
             report2 sent2 = (Inr report3, sent3)"
    and s4: "step_suggestions llm generate_suggestions gap_result
             (content_titles_of existing_content) report3 sent3 = (Inr report4, sent')"
    and r: "report = report4\<lparr>summary := generate_summary report4 gap_result,
                            duration_seconds := time_end env - time_start env\<rparr>"
    by blast
  from step_detect_Inr [OF s1] have "duration_seconds report1 = 0"
    by (auto simp: new_report_def)
  with step_coverage_Inr [OF s2] have "duration_seconds report2 = 0" by auto
  with step_faqs_Inr [OF s3] have "duration_seconds report3 = 0" by auto
  with step_suggestions_Inr [OF s4] have d: "duration_seconds report4 = 0" by auto
  from generate_summary_prefix [of report4 gap_result] d r show ?thesis
    by (auto simp: fmt_1f_zero)
qed

theorem summary_reports_zero_duration_witness:
  "run_full_analysis example_repr example_coercion stub_llm example_env (Some example_queries) None None
     (Some [example_content]) (Some [''billing'', ''security'']) False True [] =
     (Inr example_report_a, example_sent_a) \<and>
   (\<exists>rest. summary example_report_a =
      ''Analysis completed in 0.0 seconds. Identified '' @
      str_int (gaps_found example_report_a) @ '' knowledge gaps.'' @ rest) \<and>
   duration_seconds example_report_a = 5 / 2 \<and>
   time_end example_env - time_start example_env = 5 / 2"
  using summary_reports_zero_duration [OF run_example_a] run_example_a
  by (simp add: example_env_def)

end
